theory Spec2Isabelle
  imports Main "HOL-Library.Sublist"
begin

section \<open>Inline edit controller of the watch database table\<close>

text \<open>
  A shallow embedding of \<^verbatim>\<open>changedetectionio/static/js/inline-edit.js\<close>: the class
  \<^verbatim>\<open>InlineEdit\<close>, its fields, its event handlers and the part of the document they
  read and write.

  Conventions of the embedding.
  \<^item> A JavaScript string is a \<^typ>\<open>string\<close>; a character is read as one code unit in the
    Latin-1 range.
  \<^item> DOM nodes that the controller holds references to (cells, rows, toggle buttons,
    popovers) live in stores indexed by an identity; a handler takes the state and returns
    the new one.
  \<^item> The markup of a cell (\<^verbatim>\<open>innerHTML\<close>) is identified with the forest of nodes it
    denotes: a node keeps its tag, its class list and its children. A template literal of
    the source is written as the forest the HTML parser builds from it (attributes other
    than \<^verbatim>\<open>class\<close> and the white space between elements are left out), and
    \<^verbatim>\<open>escapeHtml(t)\<close> interpolated into element content is the text node \<open>t\<close>. The empty
    string is the empty forest.
  \<^item> A \<^verbatim>\<open>TypeError\<close> raised on a \<^verbatim>\<open>null\<close> query result ends the handler; the updates
    made before it stay. Functions that can raise return an \<open>outcome\<close>.
  \<^item> \<^verbatim>\<open>setTimeout\<close> appends a callback to the list of timers of the state; firing a
    timer is an event of its own.
  \<^item> Events are those the page delivers. The \<^verbatim>\<open>blur\<close> listener of a title input runs
    only on the events \<open>BlurInput\<close> and \<open>KeydownInput\<close>: the model dispatches no
    \<^verbatim>\<open>blur\<close> of its own when the title input that has the focus is removed from the
    document (browsers differ on that) or when \<^verbatim>\<open>cell.focus()\<close> takes the focus away from
    it. In a state where no title input has the focus, neither dispatch happens in any
    browser; the property about the focus is stated for such states.
  \<^item> \<^verbatim>\<open>cell.focus()\<close> gives the cell the focus when the cell is focusable (it has a
    \<^verbatim>\<open>tabindex\<close>) and does nothing otherwise.
  \<^item> Every editable cell and every toggle button lies in a table row, and a row carries
    its watch identifier (\<^verbatim>\<open>data-watch-uuid\<close>); the status dot and status text of a row do
    not lie inside an editable cell.
\<close>

subsection \<open>Strings\<close>

text \<open>White space as \<^verbatim>\<open>String.prototype.trim\<close> and \<^verbatim>\<open>parseInt\<close> see it (Latin-1 part).\<close>

definition is_ws :: "char \<Rightarrow> bool" where
  "is_ws ch = (ch \<in> set [CHR 0x09, CHR 0x0A, CHR 0x0B, CHR 0x0C, CHR 0x0D, CHR 0x20, CHR 0xA0])"

definition trim :: "string \<Rightarrow> string" where
  "trim s = rev (dropWhile is_ws (rev (dropWhile is_ws s)))"

text \<open>\<^verbatim>\<open>s.split('\n')\<close>: the empty string gives one empty line.\<close>

fun split_nl :: "string \<Rightarrow> string list" where
  "split_nl [] = [[]]"
| "split_nl (ch # cs) =
     (if ch = CHR 0x0A then [] # split_nl cs
      else (case split_nl cs of [] \<Rightarrow> [[ch]] | l # ls \<Rightarrow> (ch # l) # ls))"

text \<open>\<^verbatim>\<open>xs.join(sep)\<close>\<close>

fun join :: "string \<Rightarrow> string list \<Rightarrow> string" where
  "join sep [] = []"
| "join sep [x] = x"
| "join sep (x # y # ys) = x @ sep @ join sep (y # ys)"

text \<open>A string in a boolean position: \<^verbatim>\<open>undefined\<close> and the empty string are falsy.\<close>

fun truthy :: "string option \<Rightarrow> bool" where
  "truthy None = False"
| "truthy (Some t) = (t \<noteq> [])"

subsection \<open>Numbers\<close>

text \<open>
  A number is an \<^typ>\<open>int option\<close>, \<open>None\<close> being \<^verbatim>\<open>NaN\<close>. Integers are exact (the
  source's doubles are, below \<open>2 ^ 53\<close>).
\<close>

type_synonym jsnum = "int option"

definition digit_val :: "char \<Rightarrow> nat option" where
  "digit_val ch =
     (let n = (of_char ch :: nat) in
      if 48 \<le> n \<and> n \<le> 57 then Some (n - 48)
      else if 97 \<le> n \<and> n \<le> 102 then Some (n - 87)
      else if 65 \<le> n \<and> n \<le> 70 then Some (n - 55)
      else None)"

definition is_digit :: "nat \<Rightarrow> char \<Rightarrow> bool" where
  "is_digit radix ch = (case digit_val ch of None \<Rightarrow> False | Some d \<Rightarrow> d < radix)"

definition digits_value :: "nat \<Rightarrow> string \<Rightarrow> nat" where
  "digits_value radix ds = foldl (\<lambda>acc ch. acc * radix + (case digit_val ch of None \<Rightarrow> 0 | Some d \<Rightarrow> d)) 0 ds"

text \<open>
  \<^verbatim>\<open>parseInt(s)\<close> with no radix: leading white space, a sign, a \<^verbatim>\<open>0x\<close> prefix, then
  the longest run of digits; \<^verbatim>\<open>NaN\<close> when the run is empty.
\<close>

definition parseInt :: "string \<Rightarrow> jsnum" where
  "parseInt s =
     (let t = dropWhile is_ws s;
          neg = (case t of ch # _ \<Rightarrow> ch = CHR ''-'' | [] \<Rightarrow> False);
          u = (case t of ch # cs \<Rightarrow> if ch = CHR ''-'' \<or> ch = CHR ''+'' then cs else t | [] \<Rightarrow> t);
          hex = (case u of a # b # _ \<Rightarrow> a = CHR ''0'' \<and> (b = CHR ''x'' \<or> b = CHR ''X'') | _ \<Rightarrow> False);
          radix = (if hex then 16 else 10);
          ds = takeWhile (is_digit radix) (if hex then drop 2 u else u)
      in if ds = [] then None
         else Some (if neg then - int (digits_value radix ds) else int (digits_value radix ds)))"

text \<open>\<^verbatim>\<open>Math.floor(a / b)\<close> and \<^verbatim>\<open>a % b\<close> for a positive constant \<open>b\<close>.\<close>

definition floor_div :: "jsnum \<Rightarrow> int \<Rightarrow> jsnum" where
  "floor_div a b = map_option (\<lambda>x. x div b) a"

definition js_rem :: "jsnum \<Rightarrow> int \<Rightarrow> jsnum" where
  "js_rem a b = map_option (\<lambda>x. sgn x * (\<bar>x\<bar> mod \<bar>b\<bar>)) a"

text \<open>Number to string.\<close>

definition digit_char :: "nat \<Rightarrow> char" where
  "digit_char d = char_of (48 + d)"

function decimal :: "nat \<Rightarrow> string" where
  "decimal n = (if n < 10 then [digit_char n] else decimal (n div 10) @ [digit_char (n mod 10)])"
  by pat_completeness auto
termination
  by (relation "measure id") auto

declare decimal.simps [simp del]

definition num_str :: "jsnum \<Rightarrow> string" where
  "num_str x =
     (case x of None \<Rightarrow> ''NaN''
      | Some i \<Rightarrow> if i < 0 then CHR ''-'' # decimal (nat (- i)) else decimal (nat i))"

subsection \<open>Markup\<close>

datatype node = Text string | Elem string "string list" "node list"

type_synonym markup = "node list"

text \<open>
  \<^verbatim>\<open>querySelector('.c')\<close> below a node: the first element of class \<open>c\<close> in document
  order.
\<close>

fun query :: "string \<Rightarrow> markup \<Rightarrow> node option" where
  "query c [] = None"
| "query c (Text t # ns) = query c ns"
| "query c (Elem tg cls ks # ns) =
     (if c \<in> set cls then Some (Elem tg cls ks)
      else (case query c ks of Some n \<Rightarrow> Some n | None \<Rightarrow> query c ns))"

text \<open>Replacing the children of that first element (a write through the queried node).\<close>

fun modify :: "string \<Rightarrow> (markup \<Rightarrow> markup) \<Rightarrow> markup \<Rightarrow> markup" where
  "modify c f [] = []"
| "modify c f (Text t # ns) = Text t # modify c f ns"
| "modify c f (Elem tg cls ks # ns) =
     (if c \<in> set cls then Elem tg cls (f ks) # ns
      else if query c ks \<noteq> None then Elem tg cls (modify c f ks) # ns
      else Elem tg cls ks # modify c f ns)"

text \<open>\<^verbatim>\<open>node.textContent\<close>, read and written.\<close>

fun textContent :: "node \<Rightarrow> string" where
  "textContent (Text t) = t"
| "textContent (Elem tg cls ks) = concat (map textContent ks)"

definition text_nodes :: "string \<Rightarrow> markup" where
  "text_nodes t = (if t = [] then [] else [Text t])"

subsection \<open>The document and the controller\<close>

type_synonym uuid = string
type_synonym cell_id = nat
type_synonym row_id = nat
type_synonym btn_id = nat
type_synonym popover_id = nat

text \<open>
  An editable cell: \<^verbatim>\<open>dataset.field\<close>, its row, its markup, its class list, and whether
  it can take the focus (it has a \<^verbatim>\<open>tabindex\<close>).
\<close>

record cell =
  c_field :: "string option"
  c_row :: row_id
  innerHTML :: markup
  c_classes :: "string set"
  focusable :: bool

text \<open>
  A table row: the watch identifier, the other \<^verbatim>\<open>data-*\<close> attributes, the class list,
  and the \<^verbatim>\<open>className\<close> of its status dot and the text of its status text, when the row
  has them.
\<close>

record row =
  watchUuid :: uuid
  dataset :: "string \<rightharpoonup> string"
  r_classes :: "string set"
  status_dot :: "string option"
  status_text :: "string option"

text \<open>A pause or notify button: its row, \<^verbatim>\<open>dataset.op\<close>, markup and title.\<close>

record btn =
  b_row :: row_id
  b_op :: "string option"
  b_html :: markup
  b_title :: string

text \<open>
  A popover element: which form its content holds, and the variables \<^verbatim>\<open>uuid\<close>,
  \<^verbatim>\<open>row\<close>, \<^verbatim>\<open>cell\<close> captured by the click handlers of its buttons, once they are bound.
  What the user enters into the form is given with the click on Save.
\<close>

datatype form = WordsForm | IntervalForm | TagsForm

record popover =
  po_form :: form
  po_handlers :: "(uuid \<times> row_id \<times> cell_id) option"

record toast =
  toast_id :: nat
  toast_text :: string

datatype focus = OnCell cell_id | InInput cell_id | InPopover popover_id

record tag =
  tag_uuid :: uuid
  tag_title :: string

text \<open>The payloads sent on the socket.\<close>

record duration =
  weeks :: jsnum
  days :: jsnum
  hours :: jsnum
  minutes :: jsnum
  seconds :: jsnum

record interval_updates =
  time_between_check_use_default :: bool
  time_between_check :: "duration option"

datatype updates =
    TitleUpd string
  | WordsUpd "string list" "string list"
  | IntervalUpd interval_updates
  | TagsUpd "string list"

datatype emitted = WatchUpdate uuid updates | WatchOperation "string option" uuid

text \<open>\<^verbatim>\<open>this.activeEdit\<close> and the values of \<^verbatim>\<open>this.pendingUpdates\<close>.\<close>

record edit_session =
  e_cell :: cell_id
  e_uuid :: uuid
  e_field :: string
  originalHTML :: "markup option"
  originalValue :: "string option"

record pending =
  p_cell :: cell_id
  p_originalHTML :: "markup option"
  p_originalValue :: "string option"

text \<open>
  The callbacks given to \<^verbatim>\<open>setTimeout\<close>: the optimistic title update of \<^verbatim>\<open>saveTitle\<close>
  with the variables it has captured, the removal of the class \<^verbatim>\<open>save-success\<close>, the
  removal of a toast.
\<close>

datatype timer =
    TitleOptimistic cell_id "markup option" "string option" string
  | ClearSuccess cell_id
  | RemoveToast nat

record state =
  socket :: bool
  activeEdit :: "edit_session option"
  activePopover :: "popover_id option"
  allTags :: "tag list"
  pendingUpdates :: "uuid \<rightharpoonup> pending"
  cells :: "cell_id \<Rightarrow> cell"
  rows :: "row_id \<Rightarrow> row"
  btns :: "btn_id \<Rightarrow> btn"
  popover_of :: "popover_id \<Rightarrow> popover"
  popovers :: "popover_id list"
  toasts :: "toast list"
  focus :: "focus option"
  emitted :: "emitted list"
  timers :: "timer list"
  next_id :: nat

datatype outcome = Normal state | TypeError state

fun state_of :: "outcome \<Rightarrow> state" where
  "state_of (Normal s) = s"
| "state_of (TypeError s) = s"

subsection \<open>Primitive updates\<close>

definition upd_cell :: "cell_id \<Rightarrow> (cell \<Rightarrow> cell) \<Rightarrow> state \<Rightarrow> state" where
  "upd_cell c f s = s\<lparr>cells := (cells s)(c := f (cells s c))\<rparr>"

definition upd_row :: "row_id \<Rightarrow> (row \<Rightarrow> row) \<Rightarrow> state \<Rightarrow> state" where
  "upd_row r f s = s\<lparr>rows := (rows s)(r := f (rows s r))\<rparr>"

definition upd_btn :: "btn_id \<Rightarrow> (btn \<Rightarrow> btn) \<Rightarrow> state \<Rightarrow> state" where
  "upd_btn b f s = s\<lparr>btns := (btns s)(b := f (btns s b))\<rparr>"

text \<open>
  \<^verbatim>\<open>cell.innerHTML = h\<close>. The old children leave the document; when the title input
  among them had the focus, nothing has it afterwards (and no \<^verbatim>\<open>blur\<close> listener is run
  for it here).
\<close>

definition set_innerHTML :: "cell_id \<Rightarrow> markup \<Rightarrow> state \<Rightarrow> state" where
  "set_innerHTML c h s =
     (upd_cell c (\<lambda>x. x\<lparr>innerHTML := h\<rparr>) s)
       \<lparr>focus := (if focus s = Some (InInput c) then None else focus s)\<rparr>"

definition add_class :: "cell_id \<Rightarrow> string \<Rightarrow> state \<Rightarrow> state" where
  "add_class c k s = upd_cell c (\<lambda>x. x\<lparr>c_classes := insert k (c_classes x)\<rparr>) s"

definition remove_class :: "cell_id \<Rightarrow> string \<Rightarrow> state \<Rightarrow> state" where
  "remove_class c k s = upd_cell c (\<lambda>x. x\<lparr>c_classes := c_classes x - {k}\<rparr>) s"

definition set_data :: "row_id \<Rightarrow> string \<Rightarrow> string \<Rightarrow> state \<Rightarrow> state" where
  "set_data r k v s = upd_row r (\<lambda>x. x\<lparr>dataset := (dataset x)(k \<mapsto> v)\<rparr>) s"

definition emit :: "emitted \<Rightarrow> state \<Rightarrow> state" where
  "emit ev s = s\<lparr>emitted := emitted s @ [ev]\<rparr>"

definition setTimeout :: "timer \<Rightarrow> state \<Rightarrow> state" where
  "setTimeout t s = s\<lparr>timers := timers s @ [t]\<rparr>"

subsection \<open>showSuccess, showError\<close>

definition showSuccess :: "cell_id \<Rightarrow> state \<Rightarrow> state" where
  "showSuccess c s = setTimeout (ClearSuccess c) (add_class c ''save-success'' s)"

definition showError :: "string \<Rightarrow> state \<Rightarrow> state" where
  "showError message s =
     setTimeout (RemoveToast (next_id s))
       (s\<lparr>toasts := toasts s @ [\<lparr>toast_id = next_id s, toast_text = message\<rparr>],
          next_id := Suc (next_id s)\<rparr>)"

subsection \<open>The title editor\<close>

definition input_markup :: markup where
  "input_markup = [Elem ''input'' [''inline-input''] []]"

definition saving_markup :: markup where
  "saving_markup = [Elem ''span'' [''saving-indicator''] [Text ''Saving...'']]"

definition editTitle :: "cell_id \<Rightarrow> uuid \<Rightarrow> row_id \<Rightarrow> state \<Rightarrow> outcome" where
  "editTitle c uuid r s =
     (let titleSpan = query ''title-text'' (innerHTML (cells s c));
          watchTitle = dataset (rows s r) ''watchTitle''
      in case (if truthy watchTitle then watchTitle
               else map_option (\<lambda>n. trim (textContent n)) titleSpan) of
           None \<Rightarrow> TypeError s
         | Some currentValue \<Rightarrow>
             let s1 = add_class c ''editing'' s;
                 html = innerHTML (cells s1 c);
                 s2 = set_innerHTML c [] s1;
                 s3 = upd_cell c (\<lambda>x. x\<lparr>innerHTML := innerHTML x @ input_markup\<rparr>) s2;
                 s4 = s3\<lparr>focus := Some (InInput c)\<rparr>
             in Normal (s4\<lparr>activeEdit := Some \<lparr>e_cell = c, e_uuid = uuid, e_field = ''title'',
                    originalHTML = Some html, originalValue = Some currentValue\<rparr>\<rparr>))"

text \<open>
  The four statements shared by the timer callback and the socket-less branch of
  \<^verbatim>\<open>saveTitle\<close>. Assigning \<^verbatim>\<open>undefined\<close> to \<^verbatim>\<open>innerHTML\<close> gives the text
  \<^verbatim>\<open>undefined\<close>.
\<close>

definition optimistic_title :: "cell_id \<Rightarrow> markup option \<Rightarrow> string option \<Rightarrow> string \<Rightarrow> state \<Rightarrow> outcome" where
  "optimistic_title c oh ov v s =
     (let s1 = set_innerHTML c (case oh of Some h \<Rightarrow> h | None \<Rightarrow> [Text ''undefined'']) s
      in case query ''title-text'' (innerHTML (cells s1 c)) of
           None \<Rightarrow> TypeError s1
         | Some _ \<Rightarrow>
             let shown = (if v \<noteq> [] then v else (case ov of Some w \<Rightarrow> w | None \<Rightarrow> []));
                 s2 = upd_cell c (\<lambda>x. x\<lparr>innerHTML :=
                        modify ''title-text'' (\<lambda>_. text_nodes shown) (innerHTML x)\<rparr>) s1;
                 s3 = set_data (c_row (cells s2 c)) ''watchTitle'' v s2
             in Normal (remove_class c ''editing'' s3))"

definition saveTitle :: "string \<Rightarrow> state \<Rightarrow> outcome" where
  "saveTitle v s =
     (case activeEdit s of
        None \<Rightarrow> Normal s
      | Some e \<Rightarrow>
          let c = e_cell e; uuid = e_uuid e in
          if originalValue e = Some v then
            Normal ((remove_class c ''editing''
               (set_innerHTML c (case originalHTML e of Some h \<Rightarrow> h | None \<Rightarrow> [Text ''undefined'']) s))
               \<lparr>activeEdit := None\<rparr>)
          else
            let s1 = set_innerHTML c saving_markup s;
                s2 = s1\<lparr>pendingUpdates := (pendingUpdates s1)(uuid \<mapsto>
                       \<lparr>p_cell = c, p_originalHTML = originalHTML e,
                        p_originalValue = originalValue e\<rparr>)\<rparr>
            in if socket s2 then
                 let s3 = emit (WatchUpdate uuid (TitleUpd v)) s2;
                     s4 = setTimeout (TitleOptimistic c (originalHTML e) (originalValue e) v) s3
                 in Normal (s4\<lparr>activeEdit := None\<rparr>)
               else
                 (case optimistic_title c (originalHTML e) (originalValue e) v s2 of
                    TypeError s3 \<Rightarrow> TypeError s3
                  | Normal s3 \<Rightarrow> Normal ((showSuccess c s3)\<lparr>activeEdit := None\<rparr>)))"

text \<open>The handler of \<^verbatim>\<open>blur\<close> and Enter on the title input, given the input's value.\<close>

definition saveHandler :: "string \<Rightarrow> state \<Rightarrow> outcome" where
  "saveHandler input_value s =
     (if activeEdit s \<noteq> None then saveTitle (trim input_value) s else Normal s)"

subsection \<open>Popovers\<close>

text \<open>\<^verbatim>\<open>cell.focus()\<close>: a cell without a \<^verbatim>\<open>tabindex\<close> does not take the focus.\<close>

definition focus_cell :: "cell_id \<Rightarrow> state \<Rightarrow> state" where
  "focus_cell c s = (if focusable (cells s c) then s\<lparr>focus := Some (OnCell c)\<rparr> else s)"

text \<open>
  \<^verbatim>\<open>closePopover()\<close>: the popover leaves the document, \<^verbatim>\<open>focus()\<close> is called on the
  cell of the active session, then the session is cleared. (When a title input has the
  focus at the call of \<^verbatim>\<open>focus()\<close>, the browser runs its \<^verbatim>\<open>blur\<close> listener before
  the session is cleared; that dispatch is not part of this function.)
\<close>

definition closePopover :: "state \<Rightarrow> state" where
  "closePopover s =
     (let s1 = (case activePopover s of
                  None \<Rightarrow> s
                | Some p \<Rightarrow>
                    s\<lparr>popovers := removeAll p (popovers s), activePopover := None,
                      focus := (if focus s = Some (InPopover p) then None else focus s)\<rparr>);
          s2 = (case activeEdit s1 of
                  None \<Rightarrow> s1
                | Some e \<Rightarrow> focus_cell (e_cell e) s1)
      in s2\<lparr>activeEdit := None\<rparr>)"

text \<open>
  \<^verbatim>\<open>cancelEdit()\<close>: a session that recorded a non-empty markup gets it back, then the
  popover is closed. (When the title input that is replaced has the focus, a browser that
  dispatches \<^verbatim>\<open>blur\<close> on removal runs the save handler with the session still active;
  that dispatch is not part of this function.)
\<close>

definition cancelEdit :: "state \<Rightarrow> state" where
  "cancelEdit s =
     closePopover
       (case activeEdit s of
          None \<Rightarrow> s
        | Some e \<Rightarrow>
            (case originalHTML e of
               None \<Rightarrow> s
             | Some h \<Rightarrow>
                 if h \<noteq> [] then remove_class (e_cell e) ''editing'' (set_innerHTML (e_cell e) h s)
                 else s))"

text \<open>
  \<^verbatim>\<open>createPopover(cell, content)\<close>: the new element gets a fresh identity and is appended
  to the body. The cell only serves to position the element.
\<close>

definition createPopover :: "cell_id \<Rightarrow> form \<Rightarrow> state \<Rightarrow> popover_id \<times> state" where
  "createPopover c content s =
     (let s1 = closePopover s; p = next_id s1
      in (p, s1\<lparr>popover_of := (popover_of s1)(p := \<lparr>po_form = content, po_handlers = None\<rparr>),
                popovers := popovers s1 @ [p],
                next_id := Suc p\<rparr>))"

definition bind_handlers :: "popover_id \<Rightarrow> uuid \<Rightarrow> row_id \<Rightarrow> cell_id \<Rightarrow> state \<Rightarrow> state" where
  "bind_handlers p uuid r c s =
     s\<lparr>popover_of := (popover_of s)(p := (popover_of s p)\<lparr>po_handlers := Some (uuid, r, c)\<rparr>)\<rparr>"

subsection \<open>Watch words\<close>

definition editWatchWords :: "cell_id \<Rightarrow> uuid \<Rightarrow> row_id \<Rightarrow> state \<Rightarrow> state" where
  "editWatchWords c uuid r s =
     (case createPopover c WordsForm s of
        (p, s1) \<Rightarrow>
          let s2 = s1\<lparr>activeEdit := Some \<lparr>e_cell = c, e_uuid = uuid, e_field = ''watch_words'',
                        originalHTML = None, originalValue = None\<rparr>,
                      activePopover := Some p\<rparr>;
              s3 = bind_handlers p uuid r c s2
          in s3\<lparr>focus := Some (InPopover p)\<rparr>)"

text \<open>The value of a textarea as the Save handler turns it into an array.\<close>

definition parse_words :: "string \<Rightarrow> string list" where
  "parse_words v = filter (\<lambda>w. w \<noteq> []) (map trim (split_nl v))"

definition words_summary :: "string list \<Rightarrow> string list \<Rightarrow> markup" where
  "words_summary blockWords triggerWords =
     (if blockWords \<noteq> [] \<or> triggerWords \<noteq> [] then
        [Elem ''span'' [''block-count''] [Text (decimal (length blockWords) @ '' block'')],
         Elem ''span'' [''words-sep''] [Text ''/''],
         Elem ''span'' [''trigger-count''] [Text (decimal (length triggerWords) @ '' trig'')]]
      else [Elem ''span'' [''no-words''] [Text ''None'']])"

definition set_pending :: "uuid \<Rightarrow> cell_id \<Rightarrow> state \<Rightarrow> state" where
  "set_pending uuid c s =
     s\<lparr>pendingUpdates := (pendingUpdates s)(uuid \<mapsto>
          \<lparr>p_cell = c, p_originalHTML = None, p_originalValue = None\<rparr>)\<rparr>"

definition saveWatchWords :: "uuid \<Rightarrow> string list \<Rightarrow> string list \<Rightarrow> row_id \<Rightarrow> cell_id \<Rightarrow> state \<Rightarrow> outcome" where
  "saveWatchWords uuid blockWords triggerWords r c s =
     (let s1 = set_pending uuid c s;
          s2 = (if socket s1 then emit (WatchUpdate uuid (WordsUpd blockWords triggerWords)) s1 else s1);
          s3 = set_data r ''blockWords'' (join [CHR 0x0A] blockWords) s2;
          s4 = set_data r ''triggerWords'' (join [CHR 0x0A] triggerWords) s3
      in case query ''words-summary'' (innerHTML (cells s4 c)) of
           None \<Rightarrow> TypeError s4
         | Some _ \<Rightarrow>
             let s5 = upd_cell c (\<lambda>x. x\<lparr>innerHTML :=
                        modify ''words-summary'' (\<lambda>_. words_summary blockWords triggerWords) (innerHTML x)\<rparr>) s4
             in Normal (showSuccess c (closePopover s5)))"

definition words_save_click :: "uuid \<Rightarrow> row_id \<Rightarrow> cell_id \<Rightarrow> string \<Rightarrow> string \<Rightarrow> state \<Rightarrow> outcome" where
  "words_save_click uuid r c block_value trigger_value s =
     saveWatchWords uuid (parse_words block_value) (parse_words trigger_value) r c s"

subsection \<open>Check interval\<close>

definition editInterval :: "cell_id \<Rightarrow> uuid \<Rightarrow> row_id \<Rightarrow> state \<Rightarrow> state" where
  "editInterval c uuid r s =
     (case createPopover c IntervalForm s of
        (p, s1) \<Rightarrow>
          bind_handlers p uuid r c
            (s1\<lparr>activeEdit := Some \<lparr>e_cell = c, e_uuid = uuid, e_field = ''time_between_check'',
                   originalHTML = None, originalValue = None\<rparr>,
                 activePopover := Some p\<rparr>))"

text \<open>A comparison with \<^verbatim>\<open>NaN\<close> is false.\<close>

definition num_ge :: "jsnum \<Rightarrow> int \<Rightarrow> bool" where
  "num_ge x k = (case x of None \<Rightarrow> False | Some i \<Rightarrow> k \<le> i)"

definition interval_payload :: "string \<Rightarrow> interval_updates" where
  "interval_payload v =
     (if v = ''default'' then
        \<lparr>time_between_check_use_default = True, time_between_check = None\<rparr>
      else
        let mins_total = parseInt v;
            hrs = floor_div mins_total 60;
            mins = js_rem mins_total 60
        in \<lparr>time_between_check_use_default = False,
            time_between_check = Some \<lparr>weeks = Some 0, days = Some 0, hours = hrs,
              minutes = mins, seconds = Some 0\<rparr>\<rparr>)"

definition interval_text :: "string \<Rightarrow> markup" where
  "interval_text v =
     (if v = ''default'' then [Elem ''span'' [''interval-default''] [Text ''Default'']]
      else
        let mins = parseInt v in
        if num_ge mins 1440 then [Text (num_str (floor_div mins 1440) @ ''d'')]
        else if num_ge mins 60 then [Text (num_str (floor_div mins 60) @ ''h'')]
        else [Text (num_str mins @ ''m'')])"

definition saveInterval :: "uuid \<Rightarrow> string \<Rightarrow> row_id \<Rightarrow> cell_id \<Rightarrow> state \<Rightarrow> outcome" where
  "saveInterval uuid v r c s =
     (let upd = interval_payload v;
          s1 = set_pending uuid c s;
          s2 = (if socket s1 then emit (WatchUpdate uuid (IntervalUpd upd)) s1 else s1);
          s3 = (if v = ''default'' then set_data r ''intervalUseDefault'' ''true'' s2
                else
                  let mins = parseInt v in
                  set_data r ''intervalMinutes'' (num_str (js_rem mins 60))
                    (set_data r ''intervalHours'' (num_str (floor_div mins 60))
                       (set_data r ''intervalUseDefault'' ''false'' s2)))
      in case query ''interval-text'' (innerHTML (cells s3 c)) of
           None \<Rightarrow> TypeError s3
         | Some _ \<Rightarrow>
             let s4 = upd_cell c (\<lambda>x. x\<lparr>innerHTML :=
                        modify ''interval-text'' (\<lambda>_. interval_text v) (innerHTML x)\<rparr>) s3
             in Normal (showSuccess c (closePopover s4)))"

definition interval_save_click :: "uuid \<Rightarrow> row_id \<Rightarrow> cell_id \<Rightarrow> string \<Rightarrow> string \<Rightarrow> state \<Rightarrow> outcome" where
  "interval_save_click uuid r c dropdown_value custom_minutes s =
     saveInterval uuid (if dropdown_value = ''custom'' then custom_minutes else dropdown_value) r c s"

text \<open>The minute values of the dropdown, as numbers and as the option values.\<close>

definition preset_minutes :: "nat list" where
  "preset_minutes = [1, 5, 15, 30, 60, 180, 360, 720, 1440]"

definition preset_options :: "string list" where
  "preset_options = [''1'', ''5'', ''15'', ''30'', ''60'', ''180'', ''360'', ''720'', ''1440'']"

subsection \<open>Tags\<close>

definition editTags :: "cell_id \<Rightarrow> uuid \<Rightarrow> row_id \<Rightarrow> state \<Rightarrow> state" where
  "editTags c uuid r s =
     (case createPopover c TagsForm s of
        (p, s1) \<Rightarrow>
          bind_handlers p uuid r c
            (s1\<lparr>activeEdit := Some \<lparr>e_cell = c, e_uuid = uuid, e_field = ''tags'',
                   originalHTML = None, originalValue = None\<rparr>,
                 activePopover := Some p\<rparr>))"

definition no_tags_markup :: markup where
  "no_tags_markup = [Elem ''span'' [''no-tags''] [Text ''-'']]"

definition badge :: "string \<Rightarrow> markup" where
  "badge title = [Elem ''span'' [''db-tag-badge''] (text_nodes title)]"

definition tags_markup :: "tag list \<Rightarrow> uuid list \<Rightarrow> markup" where
  "tags_markup catalog tagUuids =
     (if tagUuids \<noteq> [] then
        let badges = concat (filter (\<lambda>b. b \<noteq> [])
              (map (\<lambda>tagUuid. case find (\<lambda>t. tag_uuid t = tagUuid) catalog of
                                Some tg \<Rightarrow> badge (tag_title tg)
                              | None \<Rightarrow> []) tagUuids))
        in if badges \<noteq> [] then badges else no_tags_markup
      else no_tags_markup)"

definition saveTags :: "uuid \<Rightarrow> uuid list \<Rightarrow> row_id \<Rightarrow> cell_id \<Rightarrow> state \<Rightarrow> outcome" where
  "saveTags uuid tagUuids r c s =
     (let s1 = set_pending uuid c s;
          s2 = (if socket s1 then emit (WatchUpdate uuid (TagsUpd tagUuids)) s1 else s1);
          s3 = set_data r ''tags'' (join '','' tagUuids) s2
      in case query ''tags-list'' (innerHTML (cells s3 c)) of
           None \<Rightarrow> TypeError s3
         | Some _ \<Rightarrow>
             let s4 = upd_cell c (\<lambda>x. x\<lparr>innerHTML :=
                        modify ''tags-list'' (\<lambda>_. tags_markup (allTags s3) tagUuids) (innerHTML x)\<rparr>) s3
             in Normal (showSuccess c (closePopover s4)))"

text \<open>
  The form shows one checkbox per catalog entry, in catalog order, its value the entry's
  identifier; \<open>checks\<close> tells which of them are checked when Save is clicked.
\<close>

definition selected_tags :: "tag list \<Rightarrow> bool list \<Rightarrow> uuid list" where
  "selected_tags catalog checks = map (\<lambda>(t, b). tag_uuid t) (filter (\<lambda>(t, b). b) (zip catalog checks))"

definition tags_save_click :: "uuid \<Rightarrow> row_id \<Rightarrow> cell_id \<Rightarrow> bool list \<Rightarrow> state \<Rightarrow> outcome" where
  "tags_save_click uuid r c checks s = saveTags uuid (selected_tags (allTags s) checks) r c s"

subsection \<open>Pause and mute buttons\<close>

definition toggleOperation :: "uuid \<Rightarrow> string option \<Rightarrow> btn_id \<Rightarrow> row_id \<Rightarrow> state \<Rightarrow> state" where
  "toggleOperation uuid op b r s =
     (let s1 = (if socket s then
                  let socketOp = (if op = Some ''unpause'' then Some ''pause'' else op);
                      socketOp = (if op = Some ''unmute'' then Some ''mute'' else socketOp)
                  in emit (WatchOperation socketOp uuid) s
                else s)
      in if op = Some ''pause'' then
           upd_row r (\<lambda>x. x\<lparr>status_dot := map_option (\<lambda>_. ''status-dot status-paused'') (status_dot x),
                             status_text := map_option (\<lambda>_. ''Paused'') (status_text x)\<rparr>)
             (upd_btn b (\<lambda>x. x\<lparr>b_op := Some ''unpause'', b_html := [Text ''&#9654;''], b_title := ''Unpause''\<rparr>)
                (upd_row r (\<lambda>x. x\<lparr>r_classes := insert ''paused'' (r_classes x)\<rparr>) s1))
         else if op = Some ''unpause'' then
           upd_row r (\<lambda>x. x\<lparr>status_dot := map_option (\<lambda>_. ''status-dot status-ok'') (status_dot x),
                             status_text := map_option (\<lambda>_. ''OK'') (status_text x)\<rparr>)
             (upd_btn b (\<lambda>x. x\<lparr>b_op := Some ''pause'', b_html := [Text ''&#10074;&#10074;''], b_title := ''Pause''\<rparr>)
                (upd_row r (\<lambda>x. x\<lparr>r_classes := r_classes x - {''paused''}\<rparr>) s1))
         else if op = Some ''mute'' then
           upd_btn b (\<lambda>x. x\<lparr>b_op := Some ''unmute'',
                             b_html := [Elem ''span'' [''notify-muted''] [Text ''&#128277;'']],
                             b_title := ''Unmute notifications''\<rparr>)
             (upd_row r (\<lambda>x. x\<lparr>r_classes := insert ''notification_muted'' (r_classes x)\<rparr>) s1)
         else if op = Some ''unmute'' then
           upd_btn b (\<lambda>x. x\<lparr>b_op := Some ''mute'',
                             b_html := [Elem ''span'' [''notify-active''] [Text ''&#128276;'']],
                             b_title := ''Mute notifications''\<rparr>)
             (upd_row r (\<lambda>x. x\<lparr>r_classes := r_classes x - {''notification_muted''}\<rparr>) s1)
         else s1)"

text \<open>The click listener of the table, for a click on the button \<open>b\<close>.\<close>

definition toggle_click :: "btn_id \<Rightarrow> state \<Rightarrow> state" where
  "toggle_click b s =
     (let r = b_row (btns s b) in
      toggleOperation (watchUuid (rows s r)) (b_op (btns s b)) b r s)"

subsection \<open>Dispatch\<close>

definition startEdit :: "cell_id \<Rightarrow> state \<Rightarrow> outcome" where
  "startEdit c s =
     (let field = c_field (cells s c);
          r = c_row (cells s c);
          uuid = watchUuid (rows s r)
      in if field = Some ''title'' then editTitle c uuid r s
         else if field = Some ''watch_words'' then Normal (editWatchWords c uuid r s)
         else if field = Some ''time_between_check'' then Normal (editInterval c uuid r s)
         else if field = Some ''tags'' then Normal (editTags c uuid r s)
         else Normal s)"

subsection \<open>Socket events\<close>

record update_result =
  d_success :: bool
  d_uuid :: uuid
  d_error :: "string option"

record operation_result =
  o_success :: bool
  o_error :: "string option"

definition on_update_result :: "update_result \<Rightarrow> state \<Rightarrow> state" where
  "on_update_result d s =
     (if d_success d then
        (case pendingUpdates s (d_uuid d) of
           None \<Rightarrow> s
         | Some pnd \<Rightarrow>
             let s1 = showSuccess (p_cell pnd) s
             in s1\<lparr>pendingUpdates := (pendingUpdates s1)(d_uuid d := None)\<rparr>)
      else
        (case pendingUpdates s (d_uuid d) of
           None \<Rightarrow> s
         | Some pnd \<Rightarrow>
             let s1 = showError (if truthy (d_error d) then (case d_error d of Some m \<Rightarrow> m | None \<Rightarrow> [])
                                 else ''Update failed'') s
             in s1\<lparr>pendingUpdates := (pendingUpdates s1)(d_uuid d := None)\<rparr>))"

definition on_operation_result :: "operation_result \<Rightarrow> state \<Rightarrow> state" where
  "on_operation_result d s =
     (if \<not> o_success d then
        showError (if truthy (o_error d) then (case o_error d of Some m \<Rightarrow> m | None \<Rightarrow> [])
                   else ''Operation failed'') s
      else s)"

subsection \<open>Events\<close>

text \<open>
  One event of the page and the listeners it reaches, in the order they run: the
  listeners bound in \<^verbatim>\<open>bindEvents\<close> on the table and on the document, those of the title
  input and of the popover, the socket handlers (registered only when there is a socket)
  and the timers. A toggle button does not lie inside an editable cell.
\<close>

datatype key = Enter | Space | Escape | OtherKey

datatype form_input =
    WordsInput string string
  | IntervalInput string string
  | TagsInput "bool list"

datatype event =
    ClickCell cell_id
  | KeydownCell cell_id key
  | KeydownInput cell_id key string
  | BlurInput cell_id string
  | KeydownElsewhere key
  | KeydownPopover popover_id key
  | ClickOutside
  | ClickToggle btn_id
  | ClickCancel popover_id
  | ClickSave popover_id form_input
  | UpdateResult update_result
  | OperationResult operation_result
  | Timeout nat

text \<open>The title input is in the cell from \<^verbatim>\<open>editTitle\<close> until the markup is replaced.\<close>

definition has_input :: "state \<Rightarrow> cell_id \<Rightarrow> bool" where
  "has_input s c = (innerHTML (cells s c) = input_markup)"

text \<open>The listeners of the document for \<^verbatim>\<open>keydown\<close> and for \<^verbatim>\<open>click\<close>.\<close>

definition document_keydown :: "key \<Rightarrow> state \<Rightarrow> state" where
  "document_keydown k s = (if k = Escape \<and> activeEdit s \<noteq> None then cancelEdit s else s)"

definition document_click :: "bool \<Rightarrow> bool \<Rightarrow> state \<Rightarrow> state" where
  "document_click in_active_popover in_editable_cell s =
     (if activePopover s \<noteq> None \<and> \<not> in_active_popover \<and> \<not> in_editable_cell then cancelEdit s else s)"

text \<open>The listeners of the table for a click or a key press whose target lies in the cell.\<close>

definition table_click :: "cell_id \<Rightarrow> state \<Rightarrow> state" where
  "table_click c s = (if activeEdit s = None then state_of (startEdit c s) else s)"

definition table_keydown :: "cell_id \<Rightarrow> key \<Rightarrow> state \<Rightarrow> state" where
  "table_keydown c k s =
     (if activeEdit s = None \<and> (k = Enter \<or> k = Space) then state_of (startEdit c s) else s)"

definition save_click :: "popover_id \<Rightarrow> form_input \<Rightarrow> state \<Rightarrow> state" where
  "save_click p inp s =
     (case po_handlers (popover_of s p) of
        None \<Rightarrow> s
      | Some (uuid, r, c) \<Rightarrow>
          (case (po_form (popover_of s p), inp) of
             (WordsForm, WordsInput b t) \<Rightarrow> state_of (words_save_click uuid r c b t s)
           | (IntervalForm, IntervalInput d m) \<Rightarrow> state_of (interval_save_click uuid r c d m s)
           | (TagsForm, TagsInput checks) \<Rightarrow> state_of (tags_save_click uuid r c checks s)
           | _ \<Rightarrow> s))"

definition fire :: "timer \<Rightarrow> state \<Rightarrow> state" where
  "fire t s =
     (case t of
        TitleOptimistic c oh ov v \<Rightarrow> state_of (optimistic_title c oh ov v s)
      | ClearSuccess c \<Rightarrow> remove_class c ''save-success'' s
      | RemoveToast i \<Rightarrow> s\<lparr>toasts := filter (\<lambda>t. toast_id t \<noteq> i) (toasts s)\<rparr>)"

definition step :: "event \<Rightarrow> state \<Rightarrow> state" where
  "step ev s =
     (case ev of
        ClickCell c \<Rightarrow>
          (if activeEdit s = None then table_click c s
           else document_click False True (table_click c s))
      | KeydownCell c k \<Rightarrow> document_keydown k (table_keydown c k s)
      | KeydownInput c k v \<Rightarrow>
          (if has_input s c then
             let s1 = (if k = Enter then state_of (saveHandler v s) else s);
                 s2 = (if has_input s1 c then table_keydown c k s1 else s1)
             in document_keydown k s2
           else s)
      | BlurInput c v \<Rightarrow> (if has_input s c then state_of (saveHandler v s) else s)
      | KeydownElsewhere k \<Rightarrow> document_keydown k s
      | KeydownPopover p k \<Rightarrow>
          (if p \<in> set (popovers s) then
             document_keydown k (if k = Escape then cancelEdit s else s)
           else s)
      | ClickOutside \<Rightarrow> document_click False False s
      | ClickToggle b \<Rightarrow> document_click False False (toggle_click b s)
      | ClickCancel p \<Rightarrow>
          (if p \<in> set (popovers s) \<and> po_handlers (popover_of s p) \<noteq> None then
             let s1 = cancelEdit s in document_click (activePopover s1 = Some p) False s1
           else s)
      | ClickSave p inp \<Rightarrow>
          (if p \<in> set (popovers s) then
             let s1 = save_click p inp s in document_click (activePopover s1 = Some p) False s1
           else s)
      | UpdateResult d \<Rightarrow> (if socket s then on_update_result d s else s)
      | OperationResult d \<Rightarrow> (if socket s then on_operation_result d s else s)
      | Timeout i \<Rightarrow>
          (if i < length (timers s) then
             fire (timers s ! i) (s\<lparr>timers := take i (timers s) @ drop (Suc i) (timers s)\<rparr>)
           else s))"

fun run :: "event list \<Rightarrow> state \<Rightarrow> state" where
  "run [] s = s"
| "run (ev # evs) s = run evs (step ev s)"

text \<open>
  The constructor: no session, no popover, no pending update; the catalog of tags is
  collected once from the tag filter bar of the page.
\<close>

definition constructor ::
  "bool \<Rightarrow> tag list \<Rightarrow> (cell_id \<Rightarrow> cell) \<Rightarrow> (row_id \<Rightarrow> row) \<Rightarrow> (btn_id \<Rightarrow> btn) \<Rightarrow> state" where
  "constructor sock catalog cs rs bs =
     \<lparr>socket = sock, activeEdit = None, activePopover = None, allTags = catalog,
      pendingUpdates = Map.empty, cells = cs, rows = rs, btns = bs,
      popover_of = (\<lambda>_. \<lparr>po_form = WordsForm, po_handlers = None\<rparr>), popovers = [],
      toasts = [], focus = None, emitted = [], timers = [], next_id = 0\<rparr>"

subsection \<open>Notions used to state the properties\<close>

text \<open>The text a cell shows as the title, when its markup has a title element.\<close>

definition title_shown :: "state \<Rightarrow> cell_id \<Rightarrow> string option" where
  "title_shown s c = map_option textContent (query ''title-text'' (innerHTML (cells s c)))"

text \<open>
  The word lists in the words of the specification: the lines of the input that are not
  blank, each without its surrounding white space, in the order of the input.
\<close>

definition trimmed_nonblank_lines :: "string \<Rightarrow> string list" where
  "trimmed_nonblank_lines v = map trim (filter (\<lambda>l. \<not> list_all is_ws l) (split_nl v))"

text \<open>
  The badges in the words of the specification: the catalog labels of those identifiers
  that the catalog holds, in the order of the identifiers; an identifier that the catalog
  does not hold contributes nothing.
\<close>

definition catalog_labels :: "tag list \<Rightarrow> uuid list \<Rightarrow> string list" where
  "catalog_labels catalog tagUuids =
     concat (map (\<lambda>u. case find (\<lambda>t. tag_uuid t = u) catalog of
                         None \<Rightarrow> [] | Some tg \<Rightarrow> [tag_title tg]) tagUuids)"

text \<open>The labels of the badges among the children of the tags list.\<close>

fun badge_labels :: "markup \<Rightarrow> string list" where
  "badge_labels [] = []"
| "badge_labels (Text t # ns) = badge_labels ns"
| "badge_labels (Elem tg cls ks # ns) =
     (if ''db-tag-badge'' \<in> set cls then textContent (Elem tg cls ks) # badge_labels ns
      else badge_labels ns)"

text \<open>The events that commit the title input: \<^verbatim>\<open>blur\<close>, and Enter pressed in it.\<close>

fun title_commit :: "event \<Rightarrow> bool" where
  "title_commit (BlurInput c v) = True"
| "title_commit (KeydownInput c k v) = (k = Enter)"
| "title_commit _ = False"

text \<open>
  The body holds exactly the popover the controller refers to, and the identity of the
  next element is fresh.
\<close>

definition popover_inv :: "state \<Rightarrow> bool" where
  "popover_inv s =
     (popovers s = (case activePopover s of None \<Rightarrow> [] | Some p \<Rightarrow> [p])
      \<and> list_all (\<lambda>q. q < next_id s) (popovers s))"

text \<open>
  A save routine either closes the session and focuses its cell, or stops at a missing
  element with the session still active.
\<close>

definition closed_or_kept :: "edit_session \<Rightarrow> state \<Rightarrow> bool" where
  "closed_or_kept e s' =
     ((activeEdit s' = Some e \<and> focusable (cells s' (e_cell e)))
      \<or> (activeEdit s' = None \<and> activePopover s' = None \<and> focus s' = Some (OnCell (e_cell e))))"

text \<open>A title input has the keyboard focus.\<close>

definition input_focused :: "state \<Rightarrow> bool" where
  "input_focused s = (case focus s of Some (InInput c) \<Rightarrow> True | _ \<Rightarrow> False)"

subsection \<open>A page with one watch\<close>

definition example_cells :: "cell_id \<Rightarrow> cell" where
  "example_cells i =
     (if i = 0 then
        \<lparr>c_field = Some ''title'', c_row = 0,
         innerHTML = [Elem ''span'' [''title-text''] [Text ''Foo'']], c_classes = {}, focusable = True\<rparr>
      else if i = 1 then
        \<lparr>c_field = Some ''watch_words'', c_row = 0,
         innerHTML = [Elem ''span'' [''words-summary''] [Elem ''span'' [''no-words''] [Text ''None'']]],
         c_classes = {}, focusable = True\<rparr>
      else if i = 2 then
        \<lparr>c_field = Some ''time_between_check'', c_row = 0,
         innerHTML = [Elem ''span'' [''interval-text''] [Elem ''span'' [''interval-default''] [Text ''Default'']]],
         c_classes = {}, focusable = True\<rparr>
      else
        \<lparr>c_field = Some ''tags'', c_row = 0,
         innerHTML = [Elem ''span'' [''tags-list''] [Elem ''span'' [''no-tags''] [Text ''-'']]],
         c_classes = {}, focusable = True\<rparr>)"

definition example_rows :: "row_id \<Rightarrow> row" where
  "example_rows i =
     \<lparr>watchUuid = ''0f3a'', dataset = Map.empty, r_classes = {},
      status_dot = Some ''status-dot status-ok'', status_text = Some ''OK''\<rparr>"

definition example_btns :: "btn_id \<Rightarrow> btn" where
  "example_btns i =
     (if i = 0 then
        \<lparr>b_row = 0, b_op = Some ''pause'', b_html = [Text ''&#10074;&#10074;''], b_title = ''Pause''\<rparr>
      else
        \<lparr>b_row = 0, b_op = Some ''mute'',
         b_html = [Elem ''span'' [''notify-active''] [Text ''&#128276;'']],
         b_title = ''Mute notifications''\<rparr>)"

definition example_catalog :: "tag list" where
  "example_catalog = [\<lparr>tag_uuid = ''a1'', tag_title = ''News''\<rparr>, \<lparr>tag_uuid = ''b2'', tag_title = ''Shop''\<rparr>]"

definition example_page :: "bool \<Rightarrow> state" where
  "example_page sock = constructor sock example_catalog example_cells example_rows example_btns"

text \<open>The session that a click on the title cell of this page opens.\<close>

definition example_session :: edit_session where
  "example_session =
     \<lparr>e_cell = 0, e_uuid = ''0f3a'', e_field = ''title'',
      originalHTML = Some [Elem ''span'' [''title-text''] [Text ''Foo'']],
      originalValue = Some ''Foo''\<rparr>"

definition example_editing :: "bool \<Rightarrow> state" where
  "example_editing sock = run [ClickCell 0] (example_page sock)"

text \<open>The session that a click on the watch words cell opens.\<close>

definition example_words_session :: edit_session where
  "example_words_session =
     \<lparr>e_cell = 1, e_uuid = ''0f3a'', e_field = ''watch_words'',
      originalHTML = None, originalValue = None\<rparr>"

section \<open>Properties\<close>

lemmas prim_defs = upd_cell_def upd_row_def upd_btn_def set_innerHTML_def add_class_def
  remove_class_def set_data_def emit_def setTimeout_def showSuccess_def showError_def
  set_pending_def bind_handlers_def

lemmas example_defs = example_page_def constructor_def example_cells_def example_rows_def
  example_btns_def example_catalog_def

subsection \<open>Markup\<close>

lemma query_class: "query c ns = Some n \<Longrightarrow> \<exists>tg cls ks. n = Elem tg cls ks \<and> c \<in> set cls"
  by (induction c ns rule: query.induct) (auto split: if_splits option.splits)

lemma query_modify:
  "query c ns = Some (Elem tg cls ks) \<Longrightarrow> query c (modify c f ns) = Some (Elem tg cls (f ks))"
  by (induction c ns rule: query.induct) (auto split: if_splits option.splits)

lemma textContent_text_nodes: "concat (map textContent (text_nodes v)) = v"
  by (simp add: text_nodes_def)

subsection \<open>The example page\<close>

lemma example_editing_session: "activeEdit (example_editing sock) = Some example_session"
  by (simp add: example_editing_def example_defs step_def table_click_def startEdit_def
      editTitle_def Let_def prim_defs example_session_def trim_def is_ws_def)

lemma example_editTitle:
  "editTitle 0 ''0f3a'' 0 (example_page sock) = Normal (example_editing sock)"
  by (simp add: example_editing_def example_defs step_def table_click_def startEdit_def
      editTitle_def Let_def prim_defs)

subsection \<open>Title edits\<close>

text \<open>
  Claim C1. A title edit session was opened by \<open>editTitle\<close> on the cell \<open>c\<close>, and \<open>t\<close> is a
  later state in which it is still the active session. When the value of the input,
  trimmed, equals the original value, the save handler emits nothing, leaves the pending
  updates as they are, puts back the markup the cell had before the edit, and ends the
  session.
\<close>

theorem saveTitle_unchanged_discards:
  assumes "editTitle c uuid r s0 = Normal s1"
    and "activeEdit t = activeEdit s1"
    and "activeEdit s1 = Some e"
    and "originalValue e = Some (trim input_value)"
  shows "\<exists>t'. saveHandler input_value t = Normal t' \<and> emitted t' = emitted t
           \<and> pendingUpdates t' = pendingUpdates t
           \<and> innerHTML (cells t' c) = innerHTML (cells s0 c)
           \<and> activeEdit t' = None"
proof -
  from assms(1,3) have e: "e_cell e = c" "originalHTML e = Some (innerHTML (cells s0 c))"
    by (auto simp: editTitle_def Let_def prim_defs split: option.splits if_splits)
  show ?thesis
    using assms(2,3,4) e
    by (simp add: saveHandler_def saveTitle_def Let_def prim_defs)
qed

theorem saveTitle_unchanged_discards_witness:
  "\<exists>t'. saveHandler '' Foo '' (example_editing True) = Normal t' \<and> emitted t' = []
      \<and> pendingUpdates t' ''0f3a'' = None
      \<and> innerHTML (cells t' 0) = [Elem ''span'' [''title-text''] [Text ''Foo'']]
      \<and> activeEdit t' = None"
proof -
  have v: "originalValue example_session = Some (trim '' Foo '')"
    by code_simp
  have e: "emitted (example_editing True) = []"
    by code_simp
  have p: "pendingUpdates (example_editing True) ''0f3a'' = None"
    by code_simp
  have h: "innerHTML (cells (example_page True) 0) = [Elem ''span'' [''title-text''] [Text ''Foo'']]"
    by code_simp
  from saveTitle_unchanged_discards [OF example_editTitle [of True] refl example_editing_session [of True] v]
  show ?thesis using e p h by auto
qed

lemma optimistic_title_shows:
  assumes "query ''title-text'' h \<noteq> None" and "ov \<noteq> []"
  shows "\<exists>t'. optimistic_title c (Some h) (Some ov) [] t = Normal t'
           \<and> title_shown t' c = Some ov \<and> emitted t' = emitted t"
proof -
  from assms(1) obtain n where n: "query ''title-text'' h = Some n" by blast
  then obtain tg cls ks where e: "n = Elem tg cls ks" using query_class by blast
  from n e have "query ''title-text'' (modify ''title-text'' (\<lambda>_. text_nodes ov) h)
      = Some (Elem tg cls (text_nodes ov))"
    by (simp add: query_modify)
  then show ?thesis using n assms(2)
    by (simp add: optimistic_title_def Let_def prim_defs title_shown_def textContent_text_nodes)
qed

text \<open>
  Claim C2, as the code has it. In a title edit session whose original value is not empty
  and whose cell markup has a title element, submitting the empty string shows the prior
  value again as the title: at once when there is no socket, and by the scheduled
  optimistic update when there is one. With a socket the \<^verbatim>\<open>watch_update\<close> that carries
  the empty title is emitted all the same; without one, nothing is emitted.
\<close>

theorem empty_title_shows_prior_value:
  assumes "activeEdit s = Some e" and "originalValue e = Some ov" and "ov \<noteq> []"
    and "originalHTML e = Some h" and "query ''title-text'' h \<noteq> None"
  shows "\<exists>s'. saveTitle [] s = Normal s'
     \<and> (if socket s then
          emitted s' = emitted s @ [WatchUpdate (e_uuid e) (TitleUpd [])]
          \<and> timers s' = timers s @ [TitleOptimistic (e_cell e) (Some h) (Some ov) []]
          \<and> (\<forall>t. title_shown (fire (TitleOptimistic (e_cell e) (Some h) (Some ov) []) t) (e_cell e) = Some ov)
        else emitted s' = emitted s \<and> title_shown s' (e_cell e) = Some ov)"
proof (cases "socket s")
  case True
  have "title_shown (fire (TitleOptimistic (e_cell e) (Some h) (Some ov) []) t) (e_cell e) = Some ov" for t
    using optimistic_title_shows [OF assms(5,3), of "e_cell e" t] by (auto simp: fire_def)
  with True assms(1-4) show ?thesis
    by (simp add: saveTitle_def Let_def prim_defs)
next
  case False
  let ?s2 = "(set_innerHTML (e_cell e) saving_markup s)\<lparr>pendingUpdates :=
      (pendingUpdates (set_innerHTML (e_cell e) saving_markup s))(e_uuid e \<mapsto>
         \<lparr>p_cell = e_cell e, p_originalHTML = originalHTML e, p_originalValue = originalValue e\<rparr>)\<rparr>"
  from optimistic_title_shows [OF assms(5,3), of "e_cell e" ?s2]
  obtain t' where t': "optimistic_title (e_cell e) (Some h) (Some ov) [] ?s2 = Normal t'"
    "title_shown t' (e_cell e) = Some ov" "emitted t' = emitted ?s2" by blast
  have "saveTitle [] s = Normal ((showSuccess (e_cell e) t')\<lparr>activeEdit := None\<rparr>)"
    using False assms(1-4) t'(1) by (simp add: saveTitle_def Let_def set_innerHTML_def upd_cell_def)
  moreover have "title_shown ((showSuccess (e_cell e) t')\<lparr>activeEdit := None\<rparr>) (e_cell e) = Some ov"
    using t'(2) by (simp add: title_shown_def prim_defs)
  moreover have "emitted ((showSuccess (e_cell e) t')\<lparr>activeEdit := None\<rparr>) = emitted s"
    using t'(3) by (simp add: prim_defs)
  ultimately show ?thesis using False by simp
qed

theorem empty_title_shows_prior_value_witness:
  "\<exists>s'. saveTitle [] (example_editing False) = Normal s'
      \<and> emitted s' = [] \<and> title_shown s' 0 = Some ''Foo''"
proof -
  have a: "originalValue example_session = Some ''Foo''" "''Foo'' \<noteq> []"
    "originalHTML example_session = Some [Elem ''span'' [''title-text''] [Text ''Foo'']]"
    "query ''title-text'' [Elem ''span'' [''title-text''] [Text ''Foo'']] \<noteq> None"
    by (simp_all add: example_session_def)
  have s: "\<not> socket (example_editing False)" "emitted (example_editing False) = []"
    "e_cell example_session = 0"
    by code_simp+
  from empty_title_shows_prior_value [OF example_editing_session [of False] a]
  show ?thesis using s by auto
qed

text \<open>
  Claim C2 as stated fails: on the example page with a socket, the title \<^verbatim>\<open>Foo\<close> is
  edited and the empty string is submitted; the \<^verbatim>\<open>watch_update\<close> with the empty title
  is emitted.
\<close>

theorem empty_title_is_emitted:
  "map_option originalValue (activeEdit (run [ClickCell 0] (example_page True))) = Some (Some ''Foo'')
   \<and> emitted (run [ClickCell 0, BlurInput 0 []] (example_page True)) = [WatchUpdate ''0f3a'' (TitleUpd [])]"
  by code_simp

subsection \<open>What the save routines emit\<close>

lemma emitted_closePopover [simp]: "emitted (closePopover s) = emitted s"
  by (simp add: closePopover_def focus_cell_def Let_def split: option.splits)

lemma cells_closePopover [simp]: "cells (closePopover s) = cells s"
  by (simp add: closePopover_def focus_cell_def Let_def split: option.splits)

lemma emitted_saveWatchWords:
  "emitted (state_of (saveWatchWords u b t r c s)) =
     emitted s @ (if socket s then [WatchUpdate u (WordsUpd b t)] else [])"
  by (simp add: saveWatchWords_def Let_def prim_defs split: option.splits)

lemma emitted_saveInterval:
  "emitted (state_of (saveInterval u v r c s)) =
     emitted s @ (if socket s then [WatchUpdate u (IntervalUpd (interval_payload v))] else [])"
  by (simp add: saveInterval_def Let_def prim_defs split: option.splits)

lemma emitted_saveTags:
  "emitted (state_of (saveTags u ts r c s)) =
     emitted s @ (if socket s then [WatchUpdate u (TagsUpd ts)] else [])"
  by (simp add: saveTags_def Let_def prim_defs split: option.splits)

subsection \<open>Watch words\<close>

lemma dropWhile_all: "(\<forall>x \<in> set (dropWhile P l). P x) \<longleftrightarrow> (\<forall>x \<in> set l. P x)"
proof
  assume h: "\<forall>x \<in> set (dropWhile P l). P x"
  have "dropWhile P l = []"
  proof (rule ccontr)
    assume ne: "dropWhile P l \<noteq> []"
    then have "\<not> P (hd (dropWhile P l))" by (rule hd_dropWhile)
    moreover have "hd (dropWhile P l) \<in> set (dropWhile P l)" using ne by simp
    ultimately show False using h by blast
  qed
  then show "\<forall>x \<in> set l. P x" by (simp add: dropWhile_eq_Nil_conv)
next
  assume "\<forall>x \<in> set l. P x"
  then show "\<forall>x \<in> set (dropWhile P l). P x" by (meson set_dropWhileD)
qed

lemma trim_empty_iff: "trim l = [] \<longleftrightarrow> list_all is_ws l"
  by (simp add: trim_def dropWhile_eq_Nil_conv dropWhile_all list_all_iff)

lemma parse_words_spec: "parse_words v = trimmed_nonblank_lines v"
  by (simp add: parse_words_def trimmed_nonblank_lines_def filter_map comp_def trim_empty_iff)

text \<open>\<open>split_nl\<close> cuts at the line feeds and nowhere else.\<close>

lemma join_split_nl: "join [CHR 0x0A] (split_nl v) = v"
proof (induction v)
  case Nil
  then show ?case by simp
next
  case (Cons ch cs)
  obtain l ls where sp: "split_nl cs = l # ls"
    by (cases cs; cases "split_nl cs") (auto split: if_splits list.splits)
  with Cons show ?case
    by (cases ls) (auto)
qed

lemma split_nl_no_newline: "l \<in> set (split_nl v) \<Longrightarrow> CHR 0x0A \<notin> set l"
  by (induction v arbitrary: l) (auto split: if_splits list.splits)

text \<open>\<open>trim\<close> leaves no white space at either end.\<close>

lemma last_dropWhile_keep: "dropWhile P xs \<noteq> [] \<Longrightarrow> last (dropWhile P xs) = last xs"
  by (induction xs) (auto split: if_splits)

lemma trim_ends: "trim l \<noteq> [] \<Longrightarrow> \<not> is_ws (hd (trim l)) \<and> \<not> is_ws (last (trim l))"
proof -
  assume ne: "trim l \<noteq> []"
  let ?a = "dropWhile is_ws l"
  let ?b = "dropWhile is_ws (rev ?a)"
  from ne have b: "?b \<noteq> []" by (simp add: trim_def)
  then have a: "?a \<noteq> []" by (cases "?a") simp_all
  have "\<not> is_ws (hd ?b)" using b by (rule hd_dropWhile)
  then have l: "\<not> is_ws (last (trim l))" using b by (simp add: trim_def last_rev)
  have "\<not> is_ws (hd ?a)" using a by (rule hd_dropWhile)
  moreover have "last ?b = last (rev ?a)" using b by (rule last_dropWhile_keep)
  ultimately have "\<not> is_ws (last ?b)" using a by (simp add: last_rev)
  then have "\<not> is_ws (hd (trim l))" using b by (simp add: trim_def hd_rev)
  with l show ?thesis by simp
qed

lemma trimmed_nonblank_lines_trimmed:
  "w \<in> set (trimmed_nonblank_lines v) \<Longrightarrow> w \<noteq> [] \<and> \<not> is_ws (hd w) \<and> \<not> is_ws (last w)"
  using trim_ends trim_empty_iff by (auto simp: trimmed_nonblank_lines_def)

text \<open>
  Claim C4. Whatever the two textareas hold when Save is clicked, the arrays in the
  \<^verbatim>\<open>watch_update\<close> payload are the non-blank lines of the two inputs, each trimmed, in
  input order; the payload is the only event of the click (and there is none when the
  controller has no socket). No word of the arrays is empty or starts or ends with white
  space.
\<close>

theorem watch_words_payload:
  "emitted (state_of (words_save_click uuid r c block_value trigger_value s)) =
     emitted s @ (if socket s then
        [WatchUpdate uuid (WordsUpd (trimmed_nonblank_lines block_value)
                                    (trimmed_nonblank_lines trigger_value))]
      else [])
   \<and> (\<forall>w \<in> set (trimmed_nonblank_lines block_value) \<union> set (trimmed_nonblank_lines trigger_value).
         w \<noteq> [] \<and> \<not> is_ws (hd w) \<and> \<not> is_ws (last w))"
  using trimmed_nonblank_lines_trimmed
  by (auto simp: words_save_click_def emitted_saveWatchWords parse_words_spec)

theorem watch_words_payload_witness:
  "emitted (state_of (words_save_click ''0f3a'' 0 1
      [CHR '' '', CHR ''a'', CHR '' '', CHR 0x0A, CHR 0x0A, CHR '' '', CHR 0x0A, CHR ''b'', CHR '' '', CHR ''c'']
      [] (example_page True))) =
     [WatchUpdate ''0f3a'' (WordsUpd [''a'', ''b c''] [])]"
proof -
  have a: "trimmed_nonblank_lines
      [CHR '' '', CHR ''a'', CHR '' '', CHR 0x0A, CHR 0x0A, CHR '' '', CHR 0x0A, CHR ''b'', CHR '' '', CHR ''c'']
      = [''a'', ''b c'']"
    by code_simp
  have b: "trimmed_nonblank_lines [] = []"
    by code_simp
  have c: "socket (example_page True)" "emitted (example_page True) = []"
    by (simp_all add: example_defs)
  from watch_words_payload [of "''0f3a''" 0 1
      "[CHR '' '', CHR ''a'', CHR '' '', CHR 0x0A, CHR 0x0A, CHR '' '', CHR 0x0A, CHR ''b'', CHR '' '', CHR ''c'']"
      "[]" "example_page True"]
  show ?thesis unfolding a b using c by simp
qed

subsection \<open>Check interval\<close>

lemma preset_decimal: "map decimal preset_minutes = preset_options"
  by code_simp

lemma preset_payload:
  "map interval_payload preset_options =
     map (\<lambda>v. \<lparr>time_between_check_use_default = False,
                time_between_check = Some \<lparr>weeks = Some 0, days = Some 0,
                  hours = Some (int (v div 60)), minutes = Some (int (v mod 60)),
                  seconds = Some 0\<rparr>\<rparr>) preset_minutes"
  by code_simp

lemma preset_payload_at:
  assumes "v \<in> set preset_minutes"
  shows "decimal v \<in> set preset_options \<and>
     interval_payload (decimal v) =
       \<lparr>time_between_check_use_default = False,
        time_between_check = Some \<lparr>weeks = Some 0, days = Some 0,
          hours = Some (int (v div 60)), minutes = Some (int (v mod 60)),
          seconds = Some 0\<rparr>\<rparr>"
proof -
  from assms obtain i where i: "i < length preset_minutes" "preset_minutes ! i = v"
    by (auto simp: in_set_conv_nth)
  have len: "length preset_options = length preset_minutes"
    using preset_decimal by (metis length_map)
  have d: "decimal v = preset_options ! i"
    using i preset_decimal by (metis nth_map)
  have "interval_payload (preset_options ! i) = map interval_payload preset_options ! i"
    using i len by simp
  also have "\<dots> = \<lparr>time_between_check_use_default = False,
        time_between_check = Some \<lparr>weeks = Some 0, days = Some 0,
          hours = Some (int (v div 60)), minutes = Some (int (v mod 60)),
          seconds = Some 0\<rparr>\<rparr>"
    unfolding preset_payload using i by simp
  finally show ?thesis using d i len by simp
qed

text \<open>
  Claim C3, as the code has it. For every minute value \<open>v\<close> of the dropdown, the option's
  value is the decimal numeral of \<open>v\<close>, and selecting it and clicking Save emits, when the
  controller has a socket, exactly one \<^verbatim>\<open>watch_update\<close> whose updates are
  \<^verbatim>\<open>time_between_check_use_default: false\<close> and a duration of \<open>v div 60\<close> hours and
  \<open>v mod 60\<close> minutes, the weeks, days and seconds zero. A controller without a socket
  emits nothing.
\<close>

theorem preset_interval_payload:
  assumes "v \<in> set preset_minutes"
  shows "decimal v \<in> set preset_options
     \<and> emitted (state_of (interval_save_click uuid r c (decimal v) custom_minutes s)) =
         emitted s @ (if socket s then
           [WatchUpdate uuid (IntervalUpd
              \<lparr>time_between_check_use_default = False,
               time_between_check = Some \<lparr>weeks = Some 0, days = Some 0,
                 hours = Some (int (v div 60)), minutes = Some (int (v mod 60)),
                 seconds = Some 0\<rparr>\<rparr>)]
         else [])"
proof -
  note p = preset_payload_at [OF assms]
  from p have "decimal v \<noteq> ''custom''"
    by (auto simp: preset_options_def)
  with p show ?thesis
    by (simp add: interval_save_click_def emitted_saveInterval)
qed

theorem preset_interval_payload_witness:
  "emitted (state_of (interval_save_click ''0f3a'' 0 2 ''180'' ''60'' (example_page True))) =
     [WatchUpdate ''0f3a'' (IntervalUpd
        \<lparr>time_between_check_use_default = False,
         time_between_check = Some \<lparr>weeks = Some 0, days = Some 0,
           hours = Some 3, minutes = Some 0, seconds = Some 0\<rparr>\<rparr>)]"
proof -
  have m: "(180::nat) \<in> set preset_minutes"
    by (simp add: preset_minutes_def)
  have d: "decimal 180 = ''180''"
    by code_simp
  have c: "socket (example_page True)" "emitted (example_page True) = []"
    by (simp_all add: example_defs)
  from preset_interval_payload [OF m, of "''0f3a''" 0 2 "''60''" "example_page True"]
  show ?thesis unfolding d using c by simp
qed

text \<open>
  Claim C3 as stated fails: on the example page without a socket, the interval popover is
  opened, 60 is selected and saved; the row's cached interval becomes one hour and nothing
  is emitted.
\<close>

theorem interval_saved_without_socket:
  "emitted (run [ClickCell 2, ClickSave 0 (IntervalInput ''60'' ''60'')] (example_page False)) = []
   \<and> dataset (rows (run [ClickCell 2, ClickSave 0 (IntervalInput ''60'' ''60'')] (example_page False)) 0)
        ''intervalHours'' = Some ''1''"
  by code_simp

subsection \<open>Tags\<close>

lemma badge_nonempty: "badge t \<noteq> []"
  by (simp add: badge_def)

lemma badges_eq:
  "concat (filter (\<lambda>b. b \<noteq> [])
     (map (\<lambda>tagUuid. case find (\<lambda>t. tag_uuid t = tagUuid) catalog of
                       Some tg \<Rightarrow> badge (tag_title tg) | None \<Rightarrow> []) ts))
   = concat (map badge (catalog_labels catalog ts))"
  by (induction ts) (auto simp: catalog_labels_def badge_nonempty split: option.splits)

lemma concat_badges_empty: "concat (map badge ls) = [] \<longleftrightarrow> ls = []"
  by (cases ls) (simp_all add: badge_def)

lemma tags_markup_spec:
  "tags_markup catalog ts =
     (if catalog_labels catalog ts = [] then no_tags_markup
      else concat (map badge (catalog_labels catalog ts)))"
proof (cases "ts = []")
  case True
  then show ?thesis by (simp add: tags_markup_def catalog_labels_def)
next
  case False
  have "(concat (map badge (catalog_labels catalog ts)) = []) = (catalog_labels catalog ts = [])"
    by (rule concat_badges_empty)
  with False show ?thesis
    unfolding tags_markup_def Let_def badges_eq by (simp del: concat_eq_Nil_conv)
qed

lemma badge_labels_append: "badge_labels (xs @ ys) = badge_labels xs @ badge_labels ys"
  by (induction xs rule: badge_labels.induct) auto

lemma badge_labels_badges: "badge_labels (concat (map badge ls)) = ls"
  by (induction ls) (simp_all add: badge_labels_append badge_def text_nodes_def)

lemma badge_labels_tags_markup: "badge_labels (tags_markup catalog ts) = catalog_labels catalog ts"
  by (simp add: tags_markup_spec badge_labels_badges no_tags_markup_def)

lemma saveTags_html:
  assumes "query ''tags-list'' (innerHTML (cells s c)) = Some n"
  shows "\<exists>s'. saveTags uuid ts r c s = Normal s'
     \<and> innerHTML (cells s' c) =
         modify ''tags-list'' (\<lambda>_. tags_markup (allTags s) ts) (innerHTML (cells s c))"
proof (cases "socket s")
  case True
  with assms show ?thesis by (simp add: saveTags_def Let_def prim_defs)
next
  case False
  with assms show ?thesis by (simp add: saveTags_def Let_def prim_defs)
qed

text \<open>The checked identifiers are passed on in the order the checkboxes are displayed.\<close>

lemma selected_tags_Cons:
  "selected_tags (t # catalog) (b # checks) =
     (if b then tag_uuid t # selected_tags catalog checks else selected_tags catalog checks)"
  by (simp add: selected_tags_def)

lemma selected_tags_in_order: "subseq (selected_tags catalog checks) (map tag_uuid catalog)"
proof (induction catalog arbitrary: checks)
  case Nil
  then show ?case by (simp add: selected_tags_def)
next
  case (Cons t catalog)
  show ?case
  proof (cases checks)
    case Nil
    then show ?thesis by (simp add: selected_tags_def)
  next
    case (Cons b bs)
    with Cons.IH [of bs] show ?thesis
      by (auto simp: selected_tags_Cons intro: subseq_Cons')
  qed
qed

text \<open>
  Claim C5, as the code has it. For every list \<open>ts\<close> of checked tag identifiers,
  \<open>saveTags\<close> emits, when the controller has a socket, exactly one \<^verbatim>\<open>watch_update\<close> whose
  tags array is \<open>ts\<close> itself (a controller without a socket emits nothing); and when the
  cell has a tags list, the badges shown in it afterwards are the catalog labels of those
  identifiers of \<open>ts\<close> that the catalog holds, in the order of \<open>ts\<close>, the others left out of
  the badges only (the placeholder is shown when no badge remains). The Save button hands
  \<open>saveTags\<close> the identifiers of the checked boxes in the order they are displayed.
\<close>

theorem saveTags_payload_and_badges:
  "emitted (state_of (saveTags uuid ts r c s)) =
      emitted s @ (if socket s then [WatchUpdate uuid (TagsUpd ts)] else [])
   \<and> (\<forall>tg cls ks. query ''tags-list'' (innerHTML (cells s c)) = Some (Elem tg cls ks) \<longrightarrow>
        (\<exists>s' ks'. saveTags uuid ts r c s = Normal s'
           \<and> query ''tags-list'' (innerHTML (cells s' c)) = Some (Elem tg cls ks')
           \<and> badge_labels ks' = catalog_labels (allTags s) ts
           \<and> ks' = (if catalog_labels (allTags s) ts = [] then no_tags_markup
                     else concat (map badge (catalog_labels (allTags s) ts)))))
   \<and> tags_save_click uuid r c checks s = saveTags uuid (selected_tags (allTags s) checks) r c s
   \<and> subseq (selected_tags (allTags s) checks) (map tag_uuid (allTags s))"
proof (intro conjI allI impI)
  show "tags_save_click uuid r c checks s = saveTags uuid (selected_tags (allTags s) checks) r c s"
    by (simp add: tags_save_click_def)
next
  show "subseq (selected_tags (allTags s) checks) (map tag_uuid (allTags s))"
    by (rule selected_tags_in_order)
next
  show "emitted (state_of (saveTags uuid ts r c s)) =
      emitted s @ (if socket s then [WatchUpdate uuid (TagsUpd ts)] else [])"
    by (rule emitted_saveTags)
next
  fix tg cls ks
  assume q: "query ''tags-list'' (innerHTML (cells s c)) = Some (Elem tg cls ks)"
  let ?ks = "tags_markup (allTags s) ts"
  from saveTags_html [OF q] obtain s' where s1: "saveTags uuid ts r c s = Normal s'"
    and h: "innerHTML (cells s' c) = modify ''tags-list'' (\<lambda>_. ?ks) (innerHTML (cells s c))"
    by blast
  from q have "query ''tags-list'' (modify ''tags-list'' (\<lambda>_. ?ks) (innerHTML (cells s c)))
      = Some (Elem tg cls ?ks)"
    by (simp add: query_modify)
  with h have s2: "query ''tags-list'' (innerHTML (cells s' c)) = Some (Elem tg cls ?ks)"
    by simp
  have "badge_labels ?ks = catalog_labels (allTags s) ts"
    by (rule badge_labels_tags_markup)
  moreover have "?ks = (if catalog_labels (allTags s) ts = [] then no_tags_markup
                     else concat (map badge (catalog_labels (allTags s) ts)))"
    by (rule tags_markup_spec)
  ultimately show "\<exists>s' ks'. saveTags uuid ts r c s = Normal s'
           \<and> query ''tags-list'' (innerHTML (cells s' c)) = Some (Elem tg cls ks')
           \<and> badge_labels ks' = catalog_labels (allTags s) ts
           \<and> ks' = (if catalog_labels (allTags s) ts = [] then no_tags_markup
                     else concat (map badge (catalog_labels (allTags s) ts)))"
    using s1 s2 by blast
qed

theorem saveTags_payload_and_badges_witness:
  "emitted (state_of (saveTags ''0f3a'' [''b2'', ''ee'', ''a1''] 0 3 (example_page True))) =
      [WatchUpdate ''0f3a'' (TagsUpd [''b2'', ''ee'', ''a1''])]
   \<and> (\<exists>s' ks'. saveTags ''0f3a'' [''b2'', ''ee'', ''a1''] 0 3 (example_page True) = Normal s'
         \<and> query ''tags-list'' (innerHTML (cells s' 3)) = Some (Elem ''span'' [''tags-list''] ks')
         \<and> badge_labels ks' = [''Shop'', ''News''])"
proof -
  have q: "query ''tags-list'' (innerHTML (cells (example_page True) 3)) =
      Some (Elem ''span'' [''tags-list''] [Elem ''span'' [''no-tags''] [Text ''-'']])"
    by code_simp
  have l: "catalog_labels (allTags (example_page True)) [''b2'', ''ee'', ''a1''] = [''Shop'', ''News'']"
    by code_simp
  have c: "socket (example_page True)" "emitted (example_page True) = []"
    by (simp_all add: example_defs)
  from saveTags_payload_and_badges [of "''0f3a''" "[''b2'', ''ee'', ''a1'']" 0 3 "example_page True" "[]"]
  show ?thesis using q l c by auto
qed

text \<open>
  Claim C5 as stated fails: on the example page without a socket, the tags popover is
  opened and saved with the first tag checked; the badge is shown and nothing is emitted.
\<close>

theorem tags_saved_without_socket:
  "emitted (run [ClickCell 3, ClickSave 0 (TagsInput [True, False])] (example_page False)) = []
   \<and> innerHTML (cells (run [ClickCell 3, ClickSave 0 (TagsInput [True, False])] (example_page False)) 3)
       = [Elem ''span'' [''tags-list''] [Elem ''span'' [''db-tag-badge''] [Text ''News'']]]"
  by code_simp

subsection \<open>Acknowledgements from the server\<close>

text \<open>
  Claim C6. When \<^verbatim>\<open>update_result\<close> arrives with \<^verbatim>\<open>success\<close> false while the uuid has a
  pending entry, one toast is added whose text is the error message of the event, or
  \<^verbatim>\<open>Update failed\<close> when the event has none (or an empty one); the pending entry of the
  uuid is removed; cells, rows and buttons stay as the optimistic update left them, and
  no timer is withdrawn.
\<close>

theorem failed_update_shows_toast:
  assumes "\<not> d_success d" and "pendingUpdates s (d_uuid d) = Some pnd"
  shows "toasts (on_update_result d s) =
           toasts s @ [\<lparr>toast_id = next_id s,
                        toast_text = (case d_error d of
                                        None \<Rightarrow> ''Update failed''
                                      | Some m \<Rightarrow> if m = [] then ''Update failed'' else m)\<rparr>]
     \<and> pendingUpdates (on_update_result d s) = (pendingUpdates s)(d_uuid d := None)
     \<and> cells (on_update_result d s) = cells s
     \<and> rows (on_update_result d s) = rows s
     \<and> btns (on_update_result d s) = btns s
     \<and> activeEdit (on_update_result d s) = activeEdit s
     \<and> timers (on_update_result d s) = timers s @ [RemoveToast (next_id s)]
     \<and> (if socket s then step (UpdateResult d) s = on_update_result d s
         else step (UpdateResult d) s = s)"
  using assms
  by (cases "d_error d") (simp_all add: on_update_result_def Let_def prim_defs step_def)

theorem failed_update_shows_toast_witness:
  "toasts (on_update_result \<lparr>d_success = False, d_uuid = ''0f3a'', d_error = Some ''disk full''\<rparr>
      (run [ClickCell 0, BlurInput 0 ''Bar''] (example_page True)))
     = [\<lparr>toast_id = 0, toast_text = ''disk full''\<rparr>]
   \<and> pendingUpdates (on_update_result \<lparr>d_success = False, d_uuid = ''0f3a'', d_error = Some ''disk full''\<rparr>
      (run [ClickCell 0, BlurInput 0 ''Bar''] (example_page True))) ''0f3a'' = None"
proof -
  let ?d = "\<lparr>d_success = False, d_uuid = ''0f3a'', d_error = Some ''disk full''\<rparr>"
  let ?s = "run [ClickCell 0, BlurInput 0 ''Bar''] (example_page True)"
  have p: "pendingUpdates ?s (d_uuid ?d) =
      Some \<lparr>p_cell = 0, p_originalHTML = Some [Elem ''span'' [''title-text''] [Text ''Foo'']],
            p_originalValue = Some ''Foo''\<rparr>"
    by code_simp
  have n: "\<not> d_success ?d" by simp
  have t: "toasts ?s = []" "next_id ?s = 0"
    by code_simp+
  from failed_update_shows_toast [OF n p] show ?thesis using t by simp
qed

text \<open>
  Claim C10. When \<^verbatim>\<open>update_result\<close> arrives with \<^verbatim>\<open>success\<close> false and the uuid has no
  pending entry, the handler leaves the whole state as it is: no toast, no other change.
\<close>

theorem failed_update_without_pending_ignored:
  assumes "\<not> d_success d" and "pendingUpdates s (d_uuid d) = None"
  shows "on_update_result d s = s \<and> step (UpdateResult d) s = s
     \<and> toasts (on_update_result d s) = toasts s"
  using assms by (simp add: on_update_result_def step_def)

theorem failed_update_without_pending_ignored_witness:
  "on_update_result \<lparr>d_success = False, d_uuid = ''0f3a'', d_error = Some ''disk full''\<rparr>
      (example_page True) = example_page True
   \<and> toasts (on_update_result \<lparr>d_success = False, d_uuid = ''0f3a'', d_error = Some ''disk full''\<rparr>
      (example_page True)) = []"
proof -
  let ?d = "\<lparr>d_success = False, d_uuid = ''0f3a'', d_error = Some ''disk full''\<rparr>"
  have p: "pendingUpdates (example_page True) (d_uuid ?d) = None"
    by (simp add: example_defs)
  have n: "\<not> d_success ?d" by simp
  have t: "toasts (example_page True) = []"
    by (simp add: example_defs)
  from failed_update_without_pending_ignored [OF n p] show ?thesis using t by simp
qed

subsection \<open>Pause and mute buttons\<close>

text \<open>
  Claim C8, as the code has it. A click on a toggle button whose action is one of
  \<^verbatim>\<open>pause\<close>, \<^verbatim>\<open>unpause\<close>, \<^verbatim>\<open>mute\<close>, \<^verbatim>\<open>unmute\<close> emits, when the controller has a socket,
  exactly one \<^verbatim>\<open>watch_operation\<close> with the action normalised (\<^verbatim>\<open>unpause\<close> to
  \<^verbatim>\<open>pause\<close>, \<^verbatim>\<open>unmute\<close> to \<^verbatim>\<open>mute\<close>) and the uuid of the button's row; a controller
  without a socket emits nothing. In both cases the local state flips at once: the row
  gains or loses the class \<^verbatim>\<open>paused\<close> (or \<^verbatim>\<open>notification_muted\<close>) and the button's
  action becomes the opposite one.
\<close>

theorem toggle_click_flips:
  assumes "b_op (btns s b) = Some op"
    and "op \<in> {''pause'', ''unpause'', ''mute'', ''unmute''}"
  shows "emitted (toggle_click b s) =
       emitted s @ (if socket s then
          [WatchOperation
             (Some (if op = ''unpause'' then ''pause'' else if op = ''unmute'' then ''mute'' else op))
             (watchUuid (rows s (b_row (btns s b))))]
        else [])
     \<and> (op = ''pause'' \<longrightarrow>
          r_classes (rows (toggle_click b s) (b_row (btns s b))) =
            insert ''paused'' (r_classes (rows s (b_row (btns s b))))
          \<and> b_op (btns (toggle_click b s) b) = Some ''unpause'')
     \<and> (op = ''unpause'' \<longrightarrow>
          r_classes (rows (toggle_click b s) (b_row (btns s b))) =
            r_classes (rows s (b_row (btns s b))) - {''paused''}
          \<and> b_op (btns (toggle_click b s) b) = Some ''pause'')
     \<and> (op = ''mute'' \<longrightarrow>
          r_classes (rows (toggle_click b s) (b_row (btns s b))) =
            insert ''notification_muted'' (r_classes (rows s (b_row (btns s b))))
          \<and> b_op (btns (toggle_click b s) b) = Some ''unmute'')
     \<and> (op = ''unmute'' \<longrightarrow>
          r_classes (rows (toggle_click b s) (b_row (btns s b))) =
            r_classes (rows s (b_row (btns s b))) - {''notification_muted''}
          \<and> b_op (btns (toggle_click b s) b) = Some ''mute'')"
proof -
  from assms(2) consider "op = ''pause''" | "op = ''unpause''" | "op = ''mute''" | "op = ''unmute''"
    by auto
  then show ?thesis
  proof cases
    case 1
    with assms(1) show ?thesis by (simp add: toggle_click_def toggleOperation_def Let_def prim_defs)
  next
    case 2
    with assms(1) show ?thesis by (simp add: toggle_click_def toggleOperation_def Let_def prim_defs)
  next
    case 3
    with assms(1) show ?thesis by (simp add: toggle_click_def toggleOperation_def Let_def prim_defs)
  next
    case 4
    with assms(1) show ?thesis by (simp add: toggle_click_def toggleOperation_def Let_def prim_defs)
  qed
qed

theorem toggle_click_flips_witness:
  "emitted (toggle_click 0 (example_page True)) = [WatchOperation (Some ''pause'') ''0f3a'']
   \<and> r_classes (rows (toggle_click 0 (example_page True)) 0) = {''paused''}
   \<and> b_op (btns (toggle_click 0 (example_page True)) 0) = Some ''unpause''"
proof -
  have a: "b_op (btns (example_page True) 0) = Some ''pause''"
    by (simp add: example_defs)
  have m: "''pause'' \<in> {''pause'', ''unpause'', ''mute'', ''unmute''}"
    by simp
  have c: "socket (example_page True)" "emitted (example_page True) = []"
    "b_row (btns (example_page True) 0) = 0" "watchUuid (rows (example_page True) 0) = ''0f3a''"
    "r_classes (rows (example_page True) 0) = {}"
    by (simp_all add: example_defs)
  from toggle_click_flips [OF a m] show ?thesis using c by simp
qed

text \<open>
  Claim C8 as stated fails: on the example page without a socket, a click on the pause
  button flips the button's action and emits nothing.
\<close>

theorem toggle_without_socket:
  "emitted (run [ClickToggle 0] (example_page False)) = []
   \<and> b_op (btns (run [ClickToggle 0] (example_page False)) 0) = Some ''unpause''"
  by code_simp

subsection \<open>One popover, one session\<close>

lemma inv_closePopover: "popover_inv s \<Longrightarrow> popover_inv (closePopover s)"
  by (auto simp: popover_inv_def closePopover_def focus_cell_def Let_def split: option.splits)

lemma closePopover_closed:
  "popover_inv s \<Longrightarrow> popovers (closePopover s) = [] \<and> activePopover (closePopover s) = None
      \<and> next_id (closePopover s) = next_id s"
  by (auto simp: popover_inv_def closePopover_def focus_cell_def Let_def split: option.splits)

lemma inv_prims [simp]:
  "popover_inv (upd_cell c f s) = popover_inv s"
  "popover_inv (upd_row r g s) = popover_inv s"
  "popover_inv (upd_btn b h s) = popover_inv s"
  "popover_inv (set_innerHTML c m s) = popover_inv s"
  "popover_inv (add_class c k s) = popover_inv s"
  "popover_inv (remove_class c k s) = popover_inv s"
  "popover_inv (set_data r k v s) = popover_inv s"
  "popover_inv (emit ev s) = popover_inv s"
  "popover_inv (set_pending u c s) = popover_inv s"
  "popover_inv (setTimeout t s) = popover_inv s"
  "popover_inv (showSuccess c s) = popover_inv s"
  by (simp_all add: popover_inv_def prim_defs)

lemma inv_fields [simp]:
  "popover_inv (s\<lparr>activeEdit := e\<rparr>) = popover_inv s"
  "popover_inv (s\<lparr>pendingUpdates := m\<rparr>) = popover_inv s"
  "popover_inv (s\<lparr>timers := ts\<rparr>) = popover_inv s"
  "popover_inv (s\<lparr>toasts := tt\<rparr>) = popover_inv s"
  "popover_inv (s\<lparr>focus := fo\<rparr>) = popover_inv s"
  by (simp_all add: popover_inv_def)

lemma inv_showError:
  assumes "popover_inv s"
  shows "popover_inv (showError m s)"
proof -
  have one: "popovers s = (case activePopover s of None \<Rightarrow> [] | Some p \<Rightarrow> [p])"
    using assms unfolding popover_inv_def by (rule conjunct1)
  have "list_all (\<lambda>q. q < next_id s) (popovers s)"
    using assms unfolding popover_inv_def by (rule conjunct2)
  then have "list_all (\<lambda>q. q < Suc (next_id s)) (popovers s)"
    by (auto simp: list_all_iff less_Suc_eq)
  with one show ?thesis
    by (simp add: popover_inv_def prim_defs)
qed

lemma inv_cancelEdit: "popover_inv s \<Longrightarrow> popover_inv (cancelEdit s)"
  unfolding cancelEdit_def
  by (rule inv_closePopover) (simp split: option.splits)

lemma inv_optimistic_title: "popover_inv s \<Longrightarrow> popover_inv (state_of (optimistic_title c oh ov v s))"
  by (simp add: optimistic_title_def Let_def split: option.splits)

lemma inv_saveTitle: "popover_inv s \<Longrightarrow> popover_inv (state_of (saveTitle v s))"
proof (cases "activeEdit s")
  case None
  assume "popover_inv s"
  with None show ?thesis by (simp add: saveTitle_def)
next
  case (Some e)
  assume inv: "popover_inv s"
  let ?s2 = "(set_innerHTML (e_cell e) saving_markup s)\<lparr>pendingUpdates :=
      (pendingUpdates (set_innerHTML (e_cell e) saving_markup s))(e_uuid e \<mapsto>
         \<lparr>p_cell = e_cell e, p_originalHTML = originalHTML e, p_originalValue = originalValue e\<rparr>)\<rparr>"
  have s2: "popover_inv ?s2" using inv by simp
  have "popover_inv (state_of (optimistic_title (e_cell e) (originalHTML e) (originalValue e) v ?s2))"
    using s2 by (rule inv_optimistic_title)
  then show ?thesis using Some inv
    by (auto simp: saveTitle_def Let_def split: outcome.splits)
qed

lemma inv_saveHandler: "popover_inv s \<Longrightarrow> popover_inv (state_of (saveHandler v s))"
  by (simp add: saveHandler_def inv_saveTitle)

lemma inv_editTitle: "popover_inv s \<Longrightarrow> popover_inv (state_of (editTitle c u r s))"
  by (simp add: editTitle_def Let_def split: option.splits)

lemma createPopover_single:
  "popover_inv s \<Longrightarrow> createPopover c content s = (p, s') \<Longrightarrow>
     popovers s' = [p] \<and> activePopover s' = None \<and> next_id s' = Suc p \<and> p = next_id s"
  using closePopover_closed [of s] by (auto simp: createPopover_def Let_def)

lemma inv_editWatchWords: "popover_inv s \<Longrightarrow> popover_inv (editWatchWords c u r s)"
proof -
  assume inv: "popover_inv s"
  obtain p s' where cp: "createPopover c WordsForm s = (p, s')"
    by (cases "createPopover c WordsForm s")
  from createPopover_single [OF inv cp] show ?thesis
    by (simp add: editWatchWords_def cp popover_inv_def bind_handlers_def)
qed

lemma inv_editInterval: "popover_inv s \<Longrightarrow> popover_inv (editInterval c u r s)"
proof -
  assume inv: "popover_inv s"
  obtain p s' where cp: "createPopover c IntervalForm s = (p, s')"
    by (cases "createPopover c IntervalForm s")
  from createPopover_single [OF inv cp] show ?thesis
    by (simp add: editInterval_def cp popover_inv_def bind_handlers_def)
qed

lemma inv_editTags: "popover_inv s \<Longrightarrow> popover_inv (editTags c u r s)"
proof -
  assume inv: "popover_inv s"
  obtain p s' where cp: "createPopover c TagsForm s = (p, s')"
    by (cases "createPopover c TagsForm s")
  from createPopover_single [OF inv cp] show ?thesis
    by (simp add: editTags_def cp popover_inv_def bind_handlers_def)
qed

lemma inv_startEdit: "popover_inv s \<Longrightarrow> popover_inv (state_of (startEdit c s))"
  by (simp add: startEdit_def Let_def inv_editTitle inv_editWatchWords inv_editInterval inv_editTags)

lemma inv_saveWatchWords: "popover_inv s \<Longrightarrow> popover_inv (state_of (saveWatchWords u b t r c s))"
  by (simp add: saveWatchWords_def Let_def inv_closePopover split: option.splits)

lemma inv_saveInterval: "popover_inv s \<Longrightarrow> popover_inv (state_of (saveInterval u v r c s))"
  by (simp add: saveInterval_def Let_def inv_closePopover split: option.splits)

lemma inv_saveTags: "popover_inv s \<Longrightarrow> popover_inv (state_of (saveTags u ts r c s))"
  by (simp add: saveTags_def Let_def inv_closePopover split: option.splits)

lemma inv_save_click: "popover_inv s \<Longrightarrow> popover_inv (save_click p inp s)"
  by (auto simp: save_click_def words_save_click_def interval_save_click_def tags_save_click_def
      inv_saveWatchWords inv_saveInterval inv_saveTags
      split: option.splits prod.splits form.splits form_input.splits)

lemma inv_toggleOperation: "popover_inv s \<Longrightarrow> popover_inv (toggleOperation u op b r s)"
  by (simp add: toggleOperation_def Let_def)

lemma inv_on_update_result: "popover_inv s \<Longrightarrow> popover_inv (on_update_result d s)"
  by (simp add: on_update_result_def Let_def inv_showError split: option.splits)

lemma inv_on_operation_result: "popover_inv s \<Longrightarrow> popover_inv (on_operation_result d s)"
  by (simp add: on_operation_result_def inv_showError)

lemma inv_fire: "popover_inv s \<Longrightarrow> popover_inv (fire t s)"
  by (cases t) (simp_all add: fire_def inv_optimistic_title)

lemma inv_document_keydown: "popover_inv s \<Longrightarrow> popover_inv (document_keydown k s)"
  by (simp add: document_keydown_def inv_cancelEdit)

lemma inv_document_click: "popover_inv s \<Longrightarrow> popover_inv (document_click a b s)"
  by (simp add: document_click_def inv_cancelEdit)

lemma inv_table_click: "popover_inv s \<Longrightarrow> popover_inv (table_click c s)"
  by (simp add: table_click_def inv_startEdit)

lemma inv_table_keydown: "popover_inv s \<Longrightarrow> popover_inv (table_keydown c k s)"
  by (simp add: table_keydown_def inv_startEdit)

lemma inv_step: "popover_inv s \<Longrightarrow> popover_inv (step ev s)"
  by (cases ev)
     (simp_all add: step_def Let_def toggle_click_def inv_document_keydown inv_document_click
        inv_table_click inv_table_keydown inv_saveHandler inv_cancelEdit inv_save_click
        inv_toggleOperation inv_on_update_result inv_on_operation_result inv_fire)

lemma inv_run: "popover_inv s \<Longrightarrow> popover_inv (run evs s)"
  by (induction evs arbitrary: s) (simp_all add: inv_step)

lemma inv_constructor: "popover_inv (constructor sock cat cs rs bs)"
  by (simp add: popover_inv_def constructor_def)

text \<open>
  Claim C7. In every state \<open>s\<close> that the controller reaches from its construction by any
  sequence of events (activations, saves, cancels, and every other event of the page), the
  body holds at most one popover, the one the controller refers to. Creating a popover in
  such a state leaves the new popover as the only one (the one that was open is gone).
  There is one field for the active session, and while it is set a click, Enter or Space
  on an editable cell changes nothing.
\<close>

theorem single_popover_single_session:
  fixes evs sock cat cs rs bs
  defines "s \<equiv> run evs (constructor sock cat cs rs bs)"
  shows "length (popovers s) \<le> 1
     \<and> popovers s = (case activePopover s of None \<Rightarrow> [] | Some p \<Rightarrow> [p])
     \<and> (\<forall>c content. popovers (snd (createPopover c content s)) = [fst (createPopover c content s)]
            \<and> fst (createPopover c content s) \<notin> set (popovers s))
     \<and> (activeEdit s \<noteq> None \<longrightarrow>
           (\<forall>c. step (ClickCell c) s = s \<and> step (KeydownCell c Enter) s = s
                \<and> step (KeydownCell c Space) s = s))"
proof -
  have inv: "popover_inv s"
    unfolding s_def by (rule inv_run [OF inv_constructor])
  have one: "popovers s = (case activePopover s of None \<Rightarrow> [] | Some p \<Rightarrow> [p])"
    using inv by (simp add: popover_inv_def)
  have len: "length (popovers s) \<le> 1"
    using one by (simp split: option.splits)
  have cp: "popovers (snd (createPopover c content s)) = [fst (createPopover c content s)]
            \<and> fst (createPopover c content s) \<notin> set (popovers s)" for c content
    using createPopover_single [OF inv, of c content] inv
    by (cases "createPopover c content s") (auto simp: popover_inv_def list_all_iff)
  have noop: "step (ClickCell c) s = s \<and> step (KeydownCell c Enter) s = s
                \<and> step (KeydownCell c Space) s = s" if "activeEdit s \<noteq> None" for c
  proof -
    from that obtain e where "activeEdit s = Some e" by blast
    then show ?thesis
      by (simp add: step_def table_click_def table_keydown_def document_click_def
          document_keydown_def)
  qed
  show ?thesis using one len cp noop by blast
qed

theorem single_popover_single_session_witness:
  "popovers (run [ClickCell 1, ClickOutside, ClickCell 3] (example_page True)) = [1]
   \<and> step (ClickCell 2) (run [ClickCell 1, ClickOutside, ClickCell 3] (example_page True))
       = run [ClickCell 1, ClickOutside, ClickCell 3] (example_page True)"
proof -
  let ?s = "run [ClickCell 1, ClickOutside, ClickCell 3] (example_page True)"
  have a: "activeEdit ?s \<noteq> None"
    by code_simp
  have p: "activePopover ?s = Some 1"
    by code_simp
  from single_popover_single_session
    [of "[ClickCell 1, ClickOutside, ClickCell 3]" True example_catalog example_cells example_rows example_btns]
  show ?thesis using a p unfolding example_page_def by simp
qed

subsection \<open>Focus\<close>

lemma closePopover_focus:
  "activeEdit s = Some e \<Longrightarrow> focusable (cells s (e_cell e)) \<Longrightarrow>
     focus (closePopover s) = Some (OnCell (e_cell e)) \<and> activeEdit (closePopover s) = None
     \<and> activePopover (closePopover s) = None"
  by (simp add: closePopover_def focus_cell_def Let_def split: option.splits)

text \<open>On a cell that cannot take the focus the call changes nothing.\<close>

lemma closePopover_not_focusable:
  "activeEdit s = Some e \<Longrightarrow> \<not> focusable (cells s (e_cell e)) \<Longrightarrow> activePopover s = None \<Longrightarrow>
     focus (closePopover s) = focus s"
  by (simp add: closePopover_def focus_cell_def Let_def)

lemma cancelEdit_focus:
  "activeEdit s = Some e \<Longrightarrow> focusable (cells s (e_cell e)) \<Longrightarrow>
     focus (cancelEdit s) = Some (OnCell (e_cell e)) \<and> activeEdit (cancelEdit s) = None
     \<and> activePopover (cancelEdit s) = None"
  unfolding cancelEdit_def
  by (rule closePopover_focus) (simp_all add: prim_defs split: option.splits)

lemma activeEdit_cancelEdit [simp]: "activeEdit (cancelEdit s) = None"
  by (simp add: cancelEdit_def closePopover_def focus_cell_def Let_def split: option.splits)

lemma activePopover_cancelEdit [simp]: "activePopover (cancelEdit s) = None"
  by (simp add: cancelEdit_def closePopover_def focus_cell_def Let_def prim_defs split: option.splits)

lemma document_click_focus:
  "activeEdit s = Some e \<Longrightarrow> focusable (cells s (e_cell e)) \<Longrightarrow>
     activeEdit (document_click a b s) = None \<Longrightarrow>
     focus (document_click a b s) = Some (OnCell (e_cell e))"
  by (auto simp: document_click_def cancelEdit_focus split: if_splits)

lemma document_keydown_focus:
  "activeEdit s = Some e \<Longrightarrow> focusable (cells s (e_cell e)) \<Longrightarrow>
     activeEdit (document_keydown k s) = None \<Longrightarrow>
     focus (document_keydown k s) = Some (OnCell (e_cell e))"
  by (auto simp: document_keydown_def cancelEdit_focus split: if_splits)

lemma frame_activeEdit [simp]:
  "activeEdit (upd_cell c f s) = activeEdit s"
  "activeEdit (upd_row r g s) = activeEdit s"
  "activeEdit (set_data r k v s) = activeEdit s"
  "activeEdit (emit ev s) = activeEdit s"
  "activeEdit (set_pending u c s) = activeEdit s"
  "activeEdit (setTimeout t s) = activeEdit s"
  "activeEdit (showSuccess c s) = activeEdit s"
  by (simp_all add: prim_defs)

lemma frame_cells [simp]:
  "cells (upd_row r g s) = cells s"
  "cells (set_data r k v s) = cells s"
  "cells (emit ev s) = cells s"
  "cells (set_pending u c s) = cells s"
  "cells (setTimeout t s) = cells s"
  by (simp_all add: prim_defs)

lemma frame_focusable [simp]:
  "focusable (cells (upd_cell c (\<lambda>x. x\<lparr>innerHTML := m x\<rparr>) s) k) = focusable (cells s k)"
  by (simp add: upd_cell_def)

lemma frame_showSuccess [simp]:
  "focus (showSuccess c s) = focus s"
  "activePopover (showSuccess c s) = activePopover s"
  by (simp_all add: prim_defs)

lemma closed_after_closePopover:
  assumes "activeEdit s = Some e" and "focusable (cells s (e_cell e))"
  shows "closed_or_kept e (showSuccess c (closePopover s))"
  using closePopover_focus [OF assms] by (simp add: closed_or_kept_def)

lemma saveWatchWords_focus:
  assumes "activeEdit s = Some e" and "focusable (cells s (e_cell e))"
  shows "closed_or_kept e (state_of (saveWatchWords u b t r c s))"
proof (cases "query ''words-summary'' (innerHTML (cells s c))")
  case None
  with assms show ?thesis
    by (simp add: closed_or_kept_def saveWatchWords_def Let_def)
next
  case (Some n)
  then show ?thesis using assms
    by (simp add: saveWatchWords_def Let_def closed_after_closePopover)
qed

lemma saveInterval_focus:
  assumes "activeEdit s = Some e" and "focusable (cells s (e_cell e))"
  shows "closed_or_kept e (state_of (saveInterval u v r c s))"
proof (cases "query ''interval-text'' (innerHTML (cells s c))")
  case None
  with assms show ?thesis
    by (simp add: closed_or_kept_def saveInterval_def Let_def)
next
  case (Some n)
  then show ?thesis using assms
    by (simp add: saveInterval_def Let_def closed_after_closePopover)
qed

lemma saveTags_focus:
  assumes "activeEdit s = Some e" and "focusable (cells s (e_cell e))"
  shows "closed_or_kept e (state_of (saveTags u ts r c s))"
proof (cases "query ''tags-list'' (innerHTML (cells s c))")
  case None
  with assms show ?thesis
    by (simp add: closed_or_kept_def saveTags_def Let_def)
next
  case (Some n)
  then show ?thesis using assms
    by (simp add: saveTags_def Let_def closed_after_closePopover)
qed

lemma save_click_focus:
  assumes "activeEdit s = Some e" and "focusable (cells s (e_cell e))"
  shows "closed_or_kept e (save_click p inp s)"
proof -
  have kept: "closed_or_kept e s"
    using assms by (simp add: closed_or_kept_def)
  show ?thesis
    using kept saveWatchWords_focus [OF assms] saveInterval_focus [OF assms]
      saveTags_focus [OF assms]
    by (simp add: save_click_def words_save_click_def interval_save_click_def
        tags_save_click_def
        split: option.splits prod.splits form.splits form_input.splits)
qed

lemma closed_or_kept_click:
  assumes "closed_or_kept e s1" and "activeEdit (document_click a b s1) = None"
  shows "focus (document_click a b s1) = Some (OnCell (e_cell e))"
proof (cases "activeEdit s1")
  case None
  with assms(1) show ?thesis by (simp add: closed_or_kept_def document_click_def)
next
  case (Some e')
  with assms(1) have "activeEdit s1 = Some e" "focusable (cells s1 (e_cell e))"
    by (simp_all add: closed_or_kept_def)
  then show ?thesis using assms(2) by (rule document_click_focus)
qed

lemma activeEdit_toggle_click [simp]:
  "activeEdit (toggle_click b s) = activeEdit s"
  by (simp add: toggle_click_def toggleOperation_def Let_def prim_defs)

lemma cells_toggle_click [simp]:
  "cells (toggle_click b s) = cells s"
  by (simp add: toggle_click_def toggleOperation_def Let_def prim_defs)

lemma activeEdit_fire [simp]: "activeEdit (fire t s) = activeEdit s"
  by (cases t) (simp_all add: fire_def optimistic_title_def Let_def prim_defs split: option.splits)

lemma activeEdit_on_update_result [simp]: "activeEdit (on_update_result d s) = activeEdit s"
  by (simp add: on_update_result_def Let_def prim_defs split: option.splits)

lemma activeEdit_on_operation_result [simp]: "activeEdit (on_operation_result d s) = activeEdit s"
  by (simp add: on_operation_result_def prim_defs)

text \<open>
  Claim C9, as the code has it. Take a state in which a session is active, its cell is
  focusable (it has a \<^verbatim>\<open>tabindex\<close>) and no title input has the keyboard focus; so it is
  whenever a popover session is about to end. Whenever an event other than the commit of
  the title input (its \<^verbatim>\<open>blur\<close>, or Enter pressed in it) ends that session, be it the
  Save or Cancel button of a popover, Escape, or a click outside the open popover, the
  keyboard focus is afterwards on the cell of that session. In such a state neither
  \<^verbatim>\<open>focus()\<close> nor the replacement of markup takes the focus from a title input, so no
  \<^verbatim>\<open>blur\<close> listener runs in between, whatever the browser. Not covered: the commit of
  a title edit, which never calls \<^verbatim>\<open>focus()\<close>, and the end of a session while a title
  input has the focus, where the outcome depends on the browser's \<^verbatim>\<open>blur\<close> dispatch.
\<close>

theorem focus_restored_when_session_closes:
  assumes "activeEdit s = Some e" and "\<not> title_commit ev" and "activeEdit (step ev s) = None"
    and "focusable (cells s (e_cell e))" and "\<not> input_focused s"
  shows "focus (step ev s) = Some (OnCell (e_cell e))"
proof (cases ev)
  case (ClickCell c)
  with assms show ?thesis
    by (simp add: step_def table_click_def document_click_def)
next
  case (KeydownCell c k)
  with assms(1) have "step ev s = document_keydown k s"
    by (simp add: step_def table_keydown_def)
  with assms(1,3,4) show ?thesis by (simp add: document_keydown_focus)
next
  case (KeydownInput c k v)
  with assms(2) have k: "k \<noteq> Enter" by simp
  with KeydownInput assms(1) have "step ev s = document_keydown k s \<or> step ev s = s"
    by (simp add: step_def Let_def table_keydown_def)
  with assms(1,3,4) show ?thesis by (auto simp: document_keydown_focus)
next
  case (BlurInput c v)
  with assms(2) show ?thesis by simp
next
  case (KeydownElsewhere k)
  with assms(1,3,4) show ?thesis by (simp add: step_def document_keydown_focus)
next
  case (KeydownPopover p k)
  with assms(1,3,4) show ?thesis
    by (auto simp: step_def document_keydown_def cancelEdit_focus split: if_splits)
next
  case ClickOutside
  with assms(1,3,4) show ?thesis by (simp add: step_def document_click_focus)
next
  case (ClickToggle b)
  have "focus (document_click False False (toggle_click b s)) = Some (OnCell (e_cell e))"
    using assms(1,3,4) ClickToggle
    by (intro document_click_focus) (simp_all add: step_def)
  with ClickToggle show ?thesis by (simp add: step_def)
next
  case (ClickCancel p)
  with assms(1,3,4) show ?thesis
    by (auto simp: step_def Let_def document_click_def cancelEdit_focus split: if_splits)
next
  case (ClickSave p inp)
  show ?thesis
  proof (cases "p \<in> set (popovers s)")
    case True
    let ?s1 = "save_click p inp s"
    have st: "step ev s = document_click (activePopover ?s1 = Some p) False ?s1"
      using True ClickSave by (simp add: step_def Let_def)
    have "closed_or_kept e ?s1" using assms(1,4) by (rule save_click_focus)
    then show ?thesis using assms(3) unfolding st by (rule closed_or_kept_click)
  next
    case False
    with ClickSave assms(1,3) show ?thesis by (simp add: step_def)
  qed
next
  case (UpdateResult d)
  with assms(1,3) show ?thesis by (simp add: step_def split: if_splits)
next
  case (OperationResult d)
  with assms(1,3) show ?thesis by (simp add: step_def split: if_splits)
next
  case (Timeout i)
  with assms(1,3) show ?thesis by (simp add: step_def split: if_splits)
qed

theorem focus_restored_when_session_closes_witness:
  "focus (run [ClickCell 1] (example_page True)) = Some (InPopover 0)
   \<and> activeEdit (step (ClickSave 0 (WordsInput ''sold out'' [])) (run [ClickCell 1] (example_page True))) = None
   \<and> focus (step (ClickSave 0 (WordsInput ''sold out'' [])) (run [ClickCell 1] (example_page True)))
       = Some (OnCell 1)"
proof -
  let ?s = "run [ClickCell 1] (example_page True)"
  let ?ev = "ClickSave 0 (WordsInput ''sold out'' [])"
  have a: "activeEdit ?s = Some example_words_session"
    by code_simp
  have b: "\<not> title_commit ?ev"
    by simp
  have c: "activeEdit (step ?ev ?s) = None"
    by code_simp
  have d: "focusable (cells ?s (e_cell example_words_session))"
    by code_simp
  have f: "focus ?s = Some (InPopover 0)"
    by code_simp
  then have g: "\<not> input_focused ?s"
    by (simp add: input_focused_def)
  from focus_restored_when_session_closes [OF a b c d g] show ?thesis
    using c f by (simp add: example_words_session_def)
qed

text \<open>
  Claim C9 as stated fails for a saved title: on the example page the focusable title
  cell is edited and the edit committed with Enter; the session has ended, \<^verbatim>\<open>focus()\<close>
  was never called, and no element has the focus.
\<close>

theorem title_save_leaves_focus:
  "focusable (cells (example_page True) 0)
   \<and> activeEdit (run [ClickCell 0] (example_page True)) = Some example_session
   \<and> activeEdit (run [ClickCell 0, KeydownInput 0 Enter ''Bar''] (example_page True)) = None
   \<and> focus (run [ClickCell 0, KeydownInput 0 Enter ''Bar''] (example_page True)) = None"
  by code_simp

end
